theory Spec2Isabelle
  imports Main "HOL-Library.Multiset"
begin

section \<open>Go strings: the functions of package strings the program calls\<close>

text \<open>
  A Go string is a sequence of bytes; \<open>string\<close> (a list of 8-bit characters) is the same
  thing. \<open>len\<close> is \<open>length\<close>, \<open>s[i:]\<close> is \<open>drop i s\<close> and \<open>s[:i]\<close> is \<open>take i s\<close>.
\<close>

definition HasPrefix :: "string \<Rightarrow> string \<Rightarrow> bool" where
  "HasPrefix s prefix = (length prefix \<le> length s \<and> take (length prefix) s = prefix)"

definition HasSuffix :: "string \<Rightarrow> string \<Rightarrow> bool" where
  "HasSuffix s suffix =
     (length suffix \<le> length s \<and> drop (length s - length suffix) s = suffix)"

definition TrimSuffix :: "string \<Rightarrow> string \<Rightarrow> string" where
  "TrimSuffix s suffix =
     (if HasSuffix s suffix then take (length s - length suffix) s else s)"

text \<open>\<open>strings.Index\<close>: the position of the first occurrence of \<open>sep\<close>, \<open>None\<close> for Go's -1.\<close>

fun Index :: "string \<Rightarrow> string \<Rightarrow> nat option" where
  "Index [] sep = (if sep = [] then Some 0 else None)"
| "Index (c # cs) sep =
     (if HasPrefix (c # cs) sep then Some 0 else map_option Suc (Index cs sep))"

text \<open>
  \<open>strings.SplitN(s, sep, n)\<close> for a non-empty separator and \<open>n \<ge> 0\<close>: at most \<open>n\<close>
  pieces, the last one the unsplit remainder.
\<close>

fun SplitN :: "string \<Rightarrow> string \<Rightarrow> nat \<Rightarrow> string list" where
  "SplitN s sep 0 = []"
| "SplitN s sep (Suc 0) = [s]"
| "SplitN s sep (Suc (Suc k)) =
     (case Index s sep of
        None \<Rightarrow> [s]
      | Some m \<Rightarrow> take m s # SplitN (drop (m + length sep) s) sep (Suc k))"

text \<open>
  \<open>strings.ReplaceAll(s, old, new)\<close> for a non-empty \<open>old\<close>: the non-overlapping
  occurrences, left to right. (The program calls it with \<open>old = "-"\<close> only; Go's rule for
  an empty \<open>old\<close>, insertion between runes, is not part of this model.)
\<close>

function ReplaceAll :: "string \<Rightarrow> string \<Rightarrow> string \<Rightarrow> string" where
  "ReplaceAll [] old new = []"
| "ReplaceAll (c # cs) old new =
     (if old \<noteq> [] \<and> HasPrefix (c # cs) old
      then new @ ReplaceAll (drop (length old) (c # cs)) old new
      else c # ReplaceAll cs old new)"
  by pat_completeness auto
termination
  by (relation "measure (\<lambda>(s, old, new). length s)") (auto simp: HasPrefix_def)

text \<open>
  \<open>strings.TrimSpace\<close> removes the white space of Unicode from both ends. On bytes: the six
  ASCII space characters, and the UTF-8 encodings of U+0085, U+00A0, U+1680,
  U+2000..U+200A, U+2028, U+2029, U+202F, U+205F and U+3000.
\<close>

definition asciiSpace :: "char \<Rightarrow> bool" where
  "asciiSpace c = (c \<in> set [CHR 0x09, CHR 0x0A, CHR 0x0B, CHR 0x0C, CHR 0x0D, CHR 0x20])"

definition unicodeSpaces :: "string list" where
  "unicodeSpaces =
     [[CHR 0xC2, CHR 0x85], [CHR 0xC2, CHR 0xA0], [CHR 0xE1, CHR 0x9A, CHR 0x80],
      [CHR 0xE2, CHR 0x80, CHR 0x80], [CHR 0xE2, CHR 0x80, CHR 0x81],
      [CHR 0xE2, CHR 0x80, CHR 0x82], [CHR 0xE2, CHR 0x80, CHR 0x83],
      [CHR 0xE2, CHR 0x80, CHR 0x84], [CHR 0xE2, CHR 0x80, CHR 0x85],
      [CHR 0xE2, CHR 0x80, CHR 0x86], [CHR 0xE2, CHR 0x80, CHR 0x87],
      [CHR 0xE2, CHR 0x80, CHR 0x88], [CHR 0xE2, CHR 0x80, CHR 0x89],
      [CHR 0xE2, CHR 0x80, CHR 0x8A], [CHR 0xE2, CHR 0x80, CHR 0xA8],
      [CHR 0xE2, CHR 0x80, CHR 0xA9], [CHR 0xE2, CHR 0x80, CHR 0xAF],
      [CHR 0xE2, CHR 0x81, CHR 0x9F], [CHR 0xE3, CHR 0x80, CHR 0x80]]"

definition leadingSpace :: "string \<Rightarrow> nat" where
  "leadingSpace s =
     (case s of
        [] \<Rightarrow> 0
      | c # _ \<Rightarrow>
          if asciiSpace c then 1
          else (case filter (HasPrefix s) unicodeSpaces of [] \<Rightarrow> 0 | p # _ \<Rightarrow> length p))"

definition trailingSpace :: "string \<Rightarrow> nat" where
  "trailingSpace s =
     (if s = [] then 0
      else if asciiSpace (last s) then 1
      else (case filter (HasSuffix s) unicodeSpaces of [] \<Rightarrow> 0 | p # _ \<Rightarrow> length p))"

function TrimLeftSpace :: "string \<Rightarrow> string" where
  "TrimLeftSpace s = (if leadingSpace s = 0 then s else TrimLeftSpace (drop (leadingSpace s) s))"
  by pat_completeness auto
termination
  by (relation "measure length") (auto simp: leadingSpace_def split: list.splits)

function TrimRightSpace :: "string \<Rightarrow> string" where
  "TrimRightSpace s =
     (if trailingSpace s = 0 then s
      else TrimRightSpace (take (length s - trailingSpace s) s))"
  by pat_completeness auto
termination
  by (relation "measure length") (auto simp: trailingSpace_def split: if_splits list.splits)

definition TrimSpace :: "string \<Rightarrow> string" where
  "TrimSpace s = TrimRightSpace (TrimLeftSpace s)"

section \<open>Go regexp: the fragment the slug pattern uses\<close>

text \<open>
  A pattern is an optional \<open>^\<close>, a body and an optional \<open>$\<close>. The body is a regular
  expression over bytes; a character class is a list of inclusive ranges. Matching is by
  derivatives. Without the flag \<open>m\<close>, \<open>^\<close> and \<open>$\<close> of Go match only at the two ends of
  the text; a missing anchor lets any text stand on that side.
\<close>

datatype rexp =
    Zero
  | One
  | Cls "(char \<times> char) list"
  | Alt rexp rexp
  | Seq rexp rexp
  | Star rexp

definition inRanges :: "(char \<times> char) list \<Rightarrow> char \<Rightarrow> bool" where
  "inRanges rs c =
     list_ex (\<lambda>(lo, hi). (of_char lo :: nat) \<le> of_char c \<and> (of_char c :: nat) \<le> of_char hi) rs"

fun nullable :: "rexp \<Rightarrow> bool" where
  "nullable Zero = False"
| "nullable One = True"
| "nullable (Cls rs) = False"
| "nullable (Alt r s) = (nullable r \<or> nullable s)"
| "nullable (Seq r s) = (nullable r \<and> nullable s)"
| "nullable (Star r) = True"

fun deriv :: "char \<Rightarrow> rexp \<Rightarrow> rexp" where
  "deriv c Zero = Zero"
| "deriv c One = Zero"
| "deriv c (Cls rs) = (if inRanges rs c then One else Zero)"
| "deriv c (Alt r s) = Alt (deriv c r) (deriv c s)"
| "deriv c (Seq r s) =
     (if nullable r then Alt (Seq (deriv c r) s) (deriv c s) else Seq (deriv c r) s)"
| "deriv c (Star r) = Seq (deriv c r) (Star r)"

fun matches :: "rexp \<Rightarrow> string \<Rightarrow> bool" where
  "matches r [] = nullable r"
| "matches r (c # cs) = matches (deriv c r) cs"

definition Plus :: "rexp \<Rightarrow> rexp" where
  "Plus r = Seq r (Star r)"

definition anyText :: rexp where
  "anyText = Star (Cls [(CHR 0x00, CHR 0xFF)])"

record Regexp =
  beginText :: bool
  body :: rexp
  endText :: bool

definition MatchString :: "Regexp \<Rightarrow> string \<Rightarrow> bool" where
  "MatchString re s =
     matches
       (Seq (if beginText re then One else anyText)
          (Seq (body re) (if endText re then One else anyText))) s"

text \<open>\<open>validSlugRegex = regexp.MustCompile(`^[a-zA-Z0-9_-]+$`)\<close>\<close>

definition validSlugRegex :: Regexp where
  "validSlugRegex =
     \<lparr>beginText = True,
      body = Plus (Cls [(CHR ''a'', CHR ''z''), (CHR ''A'', CHR ''Z''), (CHR ''0'', CHR ''9''),
                        (CHR ''_'', CHR ''_''), (CHR ''-'', CHR ''-'')]),
      endText = True\<rparr>"

definition IsValidSlug :: "string \<Rightarrow> bool" where
  "IsValidSlug slug = MatchString validSlugRegex slug"

section \<open>Errors and the frontmatter parser\<close>

text \<open>A Go \<open>error\<close> value, by its message.\<close>

datatype error = Err string

text \<open>
  \<open>type PostFrontmatter struct { Title string; Date string }\<close>. (Field names are
  prefixed: \<open>Post\<close> and \<open>PageData\<close> have a \<open>Title\<close> too.)
\<close>

record PostFrontmatter =
  fm_Title :: string
  fm_Date :: string

text \<open>
  \<open>yaml.Unmarshal(in, &fm)\<close> of gopkg.in/yaml.v3 is not code of this repository: it is a
  parameter. It receives the bytes and the struct it writes into, and gives back the
  struct as it left it and the error it returns, if any.
\<close>

type_synonym yaml_decoder = "string \<Rightarrow> PostFrontmatter \<Rightarrow> PostFrontmatter \<times> error option"

text \<open>
  \<open>ParseFrontmatter\<close>: the decoder's error is logged and otherwise dropped; \<open>fm\<close> is
  returned as the decoder left it. (The log line is not part of the model.)
\<close>

definition ParseFrontmatter :: "yaml_decoder \<Rightarrow> string \<Rightarrow> PostFrontmatter \<times> string" where
  "ParseFrontmatter yaml_Unmarshal content =
     (let fm = \<lparr>fm_Title = [], fm_Date = []\<rparr> in
      if \<not> HasPrefix content ''---'' then (fm, content)
      else
        let parts = SplitN (drop 3 content) ''---'' 2 in
        if length parts < 2 then (fm, content)
        else (fst (yaml_Unmarshal (parts ! 0) fm), TrimSpace (parts ! 1)))"

section \<open>Go time: what the program observes of a \<open>time.Time\<close>\<close>

text \<open>
  The program compares times with \<open>After\<close> and prints them with
  \<open>Format("Jan 2, 2006")\<close>. A \<open>Time\<close> is modelled by the two things these read: the
  instant, in nanoseconds since the zero time (January 1, year 1, 00:00:00 UTC), and the
  calendar date in the time's own location. Neither \<open>time.Parse\<close> nor a file's
  modification time carries a monotonic clock reading, so \<open>After\<close> compares instants.
\<close>

record Time =
  instant :: int
  civilYear :: int
  civilMonth :: nat
  civilDay :: nat

definition zeroTime :: Time where
  "zeroTime = \<lparr>instant = 0, civilYear = 1, civilMonth = 1, civilDay = 1\<rparr>"

definition After :: "Time \<Rightarrow> Time \<Rightarrow> bool" where
  "After t u = (instant u < instant t)"

definition isLeap :: "int \<Rightarrow> bool" where
  "isLeap y = (y mod 4 = 0 \<and> (y mod 100 \<noteq> 0 \<or> y mod 400 = 0))"

definition daysIn :: "nat \<Rightarrow> int \<Rightarrow> nat" where
  "daysIn m y =
     (if m = 2 \<and> isLeap y then 29
      else [31, 28, 31, 30, 31, 30, 31, 31, 30, 31, 30, 31] ! (m - 1))"

definition daysBefore :: "nat \<Rightarrow> int" where
  "daysBefore m = [0, 31, 59, 90, 120, 151, 181, 212, 243, 273, 304, 334] ! (m - 1)"

text \<open>Days from January 1 of year 1 to the given date of the proleptic Gregorian calendar.\<close>

definition daysSinceZero :: "int \<Rightarrow> nat \<Rightarrow> nat \<Rightarrow> int" where
  "daysSinceZero y m d =
     365 * (y - 1) + (y - 1) div 4 - (y - 1) div 100 + (y - 1) div 400
     + daysBefore m + (if 2 < m \<and> isLeap y then 1 else 0) + (int d - 1)"

text \<open>\<open>time.Date(y, m, d, 0, 0, 0, 0, time.UTC)\<close> for a valid date.\<close>

definition DateUTC :: "int \<Rightarrow> nat \<Rightarrow> nat \<Rightarrow> Time" where
  "DateUTC y m d =
     \<lparr>instant = daysSinceZero y m d * 86400 * 1000000000,
      civilYear = y, civilMonth = m, civilDay = d\<rparr>"

definition isDigit :: "char \<Rightarrow> bool" where
  "isDigit c = ((of_char CHR ''0'' :: nat) \<le> of_char c \<and> (of_char c :: nat) \<le> of_char CHR ''9'')"

definition digitVal :: "char \<Rightarrow> nat" where
  "digitVal c = of_char c - of_char CHR ''0''"

definition atoi :: "string \<Rightarrow> nat" where
  "atoi ds = foldl (\<lambda>n c. 10 * n + digitVal c) 0 ds"

text \<open>\<open>getnum(s, true)\<close>: exactly two digits, and the rest.\<close>

definition getnum2 :: "string \<Rightarrow> (nat \<times> string) option" where
  "getnum2 s =
     (case s of
        a # b # rest \<Rightarrow> if isDigit a \<and> isDigit b then Some (atoi [a, b], rest) else None
      | _ \<Rightarrow> None)"

text \<open>\<open>skip(value, "-")\<close>\<close>

definition skipDash :: "string \<Rightarrow> string option" where
  "skipDash s = (case s of c # rest \<Rightarrow> if c = CHR ''-'' then Some rest else None | [] \<Rightarrow> None)"

text \<open>
  \<open>time.Parse("2006-01-02", value)\<close>: four digits, a hyphen, two digits (a month from 1 to
  12), a hyphen, two digits, nothing more, and the day checked against the month.
\<close>

definition time_Parse :: "string \<Rightarrow> error + Time" where
  "time_Parse v =
     (if length v < 4 \<or> \<not> list_all isDigit (take 4 v) then Inl (Err ''parsing time: year'')
      else
        let y = int (atoi (take 4 v)) in
        case skipDash (drop 4 v) of
          None \<Rightarrow> Inl (Err ''parsing time: separator'')
        | Some v1 \<Rightarrow>
           (case getnum2 v1 of
              None \<Rightarrow> Inl (Err ''parsing time: month'')
            | Some (m, v2) \<Rightarrow>
               if m \<le> 0 \<or> 12 < m then Inl (Err ''parsing time: month out of range'')
               else
                 (case skipDash v2 of
                    None \<Rightarrow> Inl (Err ''parsing time: separator'')
                  | Some v3 \<Rightarrow>
                     (case getnum2 v3 of
                        None \<Rightarrow> Inl (Err ''parsing time: day'')
                      | Some (d, v4) \<Rightarrow>
                         if v4 \<noteq> [] then Inl (Err ''parsing time: extra text'')
                         else if d < 1 \<or> daysIn m y < d
                         then Inl (Err ''parsing time: day out of range'')
                         else Inr (DateUTC y m d)))))"

text \<open>The decimal digits of a number.\<close>

function decimal :: "nat \<Rightarrow> string" where
  "decimal n =
     (if n < 10 then [''0123456789'' ! n]
      else decimal (n div 10) @ [''0123456789'' ! (n mod 10)])"
  by pat_completeness auto
termination
  by (relation "measure id") auto

text \<open>\<open>appendInt(b, x, width)\<close> of package time: a sign, then the digits padded with zeros.\<close>

definition appendInt :: "int \<Rightarrow> nat \<Rightarrow> string" where
  "appendInt x width =
     (let ds = decimal (nat \<bar>x\<bar>) in
      (if x < 0 then ''-'' else []) @ replicate (width - length ds) CHR ''0'' @ ds)"

definition shortMonth :: "nat \<Rightarrow> string" where
  "shortMonth m =
     (if 1 \<le> m \<and> m \<le> 12
      then [''Jan'', ''Feb'', ''Mar'', ''Apr'', ''May'', ''Jun'',
            ''Jul'', ''Aug'', ''Sep'', ''Oct'', ''Nov'', ''Dec''] ! (m - 1)
      else ''%!M'')"

text \<open>\<open>t.Format("Jan 2, 2006")\<close>\<close>

definition Format :: "Time \<Rightarrow> string" where
  "Format t =
     shortMonth (civilMonth t) @ '' '' @ appendInt (int (civilDay t)) 0 @ '', ''
     @ appendInt (civilYear t) 4"

section \<open>HTML escaping\<close>

text \<open>
  \<open>template.HTMLEscapeString\<close>: byte by byte, the five characters \<open>" ' & < >\<close> become
  entities and the NUL byte becomes U+FFFD (three bytes of UTF-8).
\<close>

definition htmlEscapeByte :: "char \<Rightarrow> string" where
  \<open>htmlEscapeByte c =
     (if c = CHR 0x00 then [CHR 0xEF, CHR 0xBF, CHR 0xBD]
      else if c = CHR 0x22 then ''&#34;''
      else if c = CHR 0x27 then ''&#39;''
      else if c = CHR ''&'' then ''&amp;''
      else if c = CHR ''<'' then ''&lt;''
      else if c = CHR ''>'' then ''&gt;''
      else [c])\<close>

definition HTMLEscapeString :: "string \<Rightarrow> string" where
  "HTMLEscapeString s = concat (map htmlEscapeByte s)"

section \<open>HTTP: the request and the response writer\<close>

text \<open>
  Of a request the handlers read the query values (\<open>r.URL.Query()\<close>), the cookies and the
  path values. \<open>Get\<close> gives the first value of a key, or the empty string; \<open>Cookie\<close> gives
  the first cookie of that name, or an error.
\<close>

record Request =
  Query :: "string \<Rightarrow> string list"
  Cookies :: "(string \<times> string) list"
  PathValues :: "string \<Rightarrow> string"

definition Query_Get :: "Request \<Rightarrow> string \<Rightarrow> string" where
  "Query_Get r k = (case Query r k of [] \<Rightarrow> [] | v # _ \<Rightarrow> v)"

definition Request_Cookie :: "Request \<Rightarrow> string \<Rightarrow> error + string" where
  "Request_Cookie r name =
     (case map_of (Cookies r) name of
        None \<Rightarrow> Inl (Err ''http: named cookie not present'')
      | Some v \<Rightarrow> Inr v)"

definition PathValue :: "Request \<Rightarrow> string \<Rightarrow> string" where
  "PathValue r name = PathValues r name"

datatype SameSite = SameSiteDefaultMode | SameSiteLaxMode | SameSiteStrictMode | SameSiteNoneMode

record Cookie =
  cookie_Name :: string
  cookie_Value :: string
  cookie_Path :: string
  cookie_MaxAge :: int
  cookie_HttpOnly :: bool
  cookie_SameSite :: SameSite

text \<open>
  The response writer as a state: the header map, the cookies added by \<open>http.SetCookie\<close>,
  the status code once it is written (\<open>None\<close> before), and the body. The first \<open>Write\<close>
  writes status 200 when none is written yet; a second \<open>WriteHeader\<close> changes nothing.
\<close>

record ResponseWriter =
  Headers :: "string \<rightharpoonup> string"
  SetCookies :: "Cookie list"
  Code :: "nat option"
  Body :: string

definition newResponse :: ResponseWriter where
  "newResponse = \<lparr>Headers = Map.empty, SetCookies = [], Code = None, Body = []\<rparr>"

definition Header_Set :: "string \<Rightarrow> string \<Rightarrow> ResponseWriter \<Rightarrow> ResponseWriter" where
  "Header_Set k v w = w\<lparr>Headers := (Headers w)(k \<mapsto> v)\<rparr>"

definition SetCookie :: "Cookie \<Rightarrow> ResponseWriter \<Rightarrow> ResponseWriter" where
  "SetCookie c w = w\<lparr>SetCookies := SetCookies w @ [c]\<rparr>"

definition WriteHeader :: "nat \<Rightarrow> ResponseWriter \<Rightarrow> ResponseWriter" where
  "WriteHeader code w = (case Code w of None \<Rightarrow> w\<lparr>Code := Some code\<rparr> | Some _ \<Rightarrow> w)"

definition Write :: "string \<Rightarrow> ResponseWriter \<Rightarrow> ResponseWriter" where
  "Write bs w = (let w1 = WriteHeader 200 w in w1\<lparr>Body := Body w1 @ bs\<rparr>)"

text \<open>The status a client receives: 200 when the handler returns without writing one.\<close>

definition status :: "ResponseWriter \<Rightarrow> nat" where
  "status w = (case Code w of None \<Rightarrow> 200 | Some c \<Rightarrow> c)"

text \<open>
  \<open>http.Error(w, msg, code)\<close>. (It also deletes headers that this program never sets.
  Header keys are kept as the source writes them.)
\<close>

definition http_Error :: "ResponseWriter \<Rightarrow> string \<Rightarrow> nat \<Rightarrow> ResponseWriter" where
  "http_Error w msg code =
     Write (msg @ ''\<newline>'')
       (WriteHeader code
          (Header_Set ''X-Content-Type-Options'' ''nosniff''
             (Header_Set ''Content-Type'' ''text/plain; charset=utf-8'' w)))"

definition setSecurityHeaders :: "ResponseWriter \<Rightarrow> ResponseWriter" where
  "setSecurityHeaders w =
     Header_Set ''Referrer-Policy'' ''strict-origin-when-cross-origin''
       (Header_Set ''X-XSS-Protection'' ''1; mode=block''
          (Header_Set ''X-Frame-Options'' ''DENY''
             (Header_Set ''X-Content-Type-Options'' ''nosniff'' w)))"

section \<open>The data of the program and its collaborators\<close>

record Post =
  Slug :: string
  Title :: string
  Date :: Time
  DateStr :: string

record PageData =
  page_Title :: string
  Content :: string

text \<open>
  A directory entry as \<open>HomeHandler\<close> sees it: its name, what \<open>os.ReadFile\<close> gives for it,
  and the modification time of \<open>f.Info()\<close> (\<open>None\<close> when \<open>Info\<close> fails or gives nil).
\<close>

record DirEntry =
  Name :: string
  Contents :: "error + string"
  ModTime :: "Time option"

text \<open>
  What the program takes from outside this repository: the YAML decoder, the title
  caser \<open>cases.Title(language.English).String\<close>, \<open>goldmark.Convert\<close>, the parsed template
  (\<open>tmpl.Execute\<close>: the bytes it writes and the error it returns), what \<open>sort.Slice\<close>
  does on a slice of more than twelve elements, the result of \<open>os.ReadDir("posts")\<close>, and
  the string literals of the source that hold Thai text or the contact markup (their
  bytes play no role in the program's logic).
\<close>

record Env =
  yaml_Unmarshal :: yaml_decoder
  cases_Title :: "string \<Rightarrow> string"
  goldmark_Convert :: "string \<Rightarrow> error + string"
  tmpl_Execute :: "PageData \<Rightarrow> string \<times> error option"
  sort_long :: "(Post \<Rightarrow> Post \<Rightarrow> bool) \<Rightarrow> Post list \<Rightarrow> Post list"
  os_ReadDir :: "error + DirEntry list"
  welcomeTitle_th :: string
  welcomeText_th :: string
  postsHeading_th :: string
  contact_th :: string
  contact_en :: string

definition toTitleCase :: "Env \<Rightarrow> string \<Rightarrow> string" where
  "toTitleCase env s = cases_Title env s"

text \<open>
  \<open>sort.Slice(x, less)\<close> of Go 1.22 calls \<open>pdqsort_func(data, 0, n, bits.Len(n))\<close>, which
  starts with \<open>if length <= maxInsertion { insertionSort_func(data, a, b); return }\<close>,
  \<open>maxInsertion\<close> being 12. The insertion sort moves each element left while it is less
  than its left neighbour:
  \<open>for i := a + 1; i < b; i++ { for j := i; j > a && less(j, j-1); j-- { swap(j, j-1) } }\<close>.
  (The second argument of \<open>bubbleLeft\<close> is the sorted part, nearest neighbour first.) What
  \<open>pdqsort_func\<close> does on a longer slice is taken from outside, as \<open>sort_long\<close>.
\<close>

fun bubbleLeft :: "('a \<Rightarrow> 'a \<Rightarrow> bool) \<Rightarrow> 'a \<Rightarrow> 'a list \<Rightarrow> 'a list" where
  "bubbleLeft lt x [] = [x]"
| "bubbleLeft lt x (y # ys) =
     (if lt x y then y # bubbleLeft lt x ys else x # y # ys)"

definition insertionSort_func :: "('a \<Rightarrow> 'a \<Rightarrow> bool) \<Rightarrow> 'a list \<Rightarrow> 'a list" where
  "insertionSort_func lt xs = rev (foldl (\<lambda>acc x. bubbleLeft lt x acc) [] xs)"

definition sort_Slice :: "Env \<Rightarrow> (Post \<Rightarrow> Post \<Rightarrow> bool) \<Rightarrow> Post list \<Rightarrow> Post list" where
  "sort_Slice env lt xs =
     (if length xs \<le> 12 then insertionSort_func lt xs else sort_long env lt xs)"

text \<open>\<open>renderPage\<close>: the template writes to \<open>w\<close>; its error, if any, goes to \<open>http.Error\<close>.\<close>

definition renderPage :: "Env \<Rightarrow> ResponseWriter \<Rightarrow> string \<Rightarrow> string \<Rightarrow> ResponseWriter" where
  "renderPage env w title content =
     (let dat = \<lparr>page_Title = title, Content = content\<rparr>;
          w1 = Header_Set ''Content-Type'' ''text/html; charset=utf-8'' w;
          (out, err) = tmpl_Execute env dat;
          w2 = (if out = [] then w1 else Write out w1)
      in case err of
           None \<Rightarrow> w2
         | Some e \<Rightarrow> http_Error w2 ''Error rendering page'' 500)"

section \<open>The contact page\<close>

definition ContactHandler :: "Env \<Rightarrow> Request \<Rightarrow> ResponseWriter" where
  "ContactHandler env r =
     (let w = setSecurityHeaders newResponse;
          lang0 = Query_Get r ''lang'';
          lang1 = (if lang0 = []
                   then (case Request_Cookie r ''lang'' of Inr v \<Rightarrow> v | Inl err \<Rightarrow> lang0)
                   else lang0);
          lang = (if lang1 \<noteq> ''en'' \<and> lang1 \<noteq> ''th'' then ''th'' else lang1);
          content = (if lang = ''th'' then contact_th env else contact_en env)
      in renderPage env w ''Contact'' content)"

section \<open>The home page\<close>

text \<open>
  The body of the loop over the directory entries: \<open>None\<close> when the entry adds no post
  (no \<open>.md\<close> suffix, a post of the other language, an unreadable file).
\<close>

definition indexEntry :: "Env \<Rightarrow> string \<Rightarrow> DirEntry \<Rightarrow> Post option" where
  "indexEntry env lang f =
     (if HasSuffix (Name f) ''.md'' then
        let slug = TrimSuffix (Name f) ''.md'';
            hasLangPrefix = (HasPrefix slug ''th-'' \<or> HasPrefix slug ''en-'')
        in
          if hasLangPrefix \<and> \<not> HasPrefix slug (lang @ ''-'') then None
          else
            (case Contents f of
               Inl err \<Rightarrow> None
             | Inr content \<Rightarrow>
                let fm = fst (ParseFrontmatter (yaml_Unmarshal env) content);
                    title =
                      (if fm_Title fm \<noteq> [] then fm_Title fm
                       else
                         let displaySlug =
                               (if HasPrefix slug ''th-'' \<or> HasPrefix slug ''en-''
                                then drop 3 slug else slug)
                         in toTitleCase env (ReplaceAll displaySlug ''-'' '' ''));
                    post0 = \<lparr>Slug = slug, Title = title, Date = zeroTime, DateStr = []\<rparr>;
                    post1 =
                      (if fm_Date fm \<noteq> [] then
                         (case time_Parse (fm_Date fm) of
                            Inr t \<Rightarrow> post0\<lparr>Date := t, DateStr := Format t\<rparr>
                          | Inl err \<Rightarrow> post0)
                       else post0);
                    post2 =
                      (if DateStr post1 = [] then
                         (case ModTime f of
                            Some mt \<Rightarrow> post1\<lparr>Date := mt, DateStr := Format mt\<rparr>
                          | None \<Rightarrow> post1)
                       else post1)
                in Some post2)
      else None)"

text \<open>The comparison handed to \<open>sort.Slice\<close>: \<open>posts[i].Date.After(posts[j].Date)\<close>.\<close>

definition newerFirst :: "Post \<Rightarrow> Post \<Rightarrow> bool" where
  "newerFirst a b = After (Date a) (Date b)"

text \<open>The slice \<open>posts\<close> after the loop and the sort.\<close>

definition postIndex :: "Env \<Rightarrow> string \<Rightarrow> DirEntry list \<Rightarrow> Post list" where
  "postIndex env lang files =
     sort_Slice env newerFirst (List.map_filter (indexEntry env lang) files)"

definition postItem :: "Post \<Rightarrow> string" where
  \<open>postItem post =
     ''<li>''
     @ ''<a href="/posts/'' @ HTMLEscapeString (Slug post) @ ''">''
       @ HTMLEscapeString (Title post) @ ''</a>''
     @ ''<span class="post-date">'' @ HTMLEscapeString (DateStr post) @ ''</span>''
     @ ''</li>\<newline>''\<close>

definition welcomeText_en :: string where
  \<open>welcomeText_en =
     ''Hi!! I'' @ [CHR 0x27] @ ''m someone who likes to create and learn new things. ''
     @ ''This is my personal space where I can share ideas or projects I'' @ [CHR 0x27]
     @ ''m currently working on.''\<close>

definition homeContent :: "Env \<Rightarrow> string \<Rightarrow> Post list \<Rightarrow> string" where
  \<open>homeContent env lang posts =
     (let (welcomeTitle, welcomeText, postsHeading) =
            (if lang = ''th''
             then (welcomeTitle_th env, welcomeText_th env, postsHeading_th env)
             else (''Welcome to LearnArai'', welcomeText_en, ''Posts''))
      in
        ''<h1>'' @ HTMLEscapeString welcomeTitle @ ''</h1>\<newline>''
        @ ''<p class="about-me">'' @ HTMLEscapeString welcomeText @ ''</p>\<newline>''
        @ ''<h2 class="posts-heading">'' @ HTMLEscapeString postsHeading @ ''</h2>\<newline>''
        @ ''<ul class="post-list">\<newline>''
        @ concat (map postItem posts)
        @ ''</ul>\<newline>'')\<close>

definition HomeHandler :: "Env \<Rightarrow> Request \<Rightarrow> ResponseWriter" where
  "HomeHandler env r =
     (let w = setSecurityHeaders newResponse;
          lang0 = Query_Get r ''lang'';
          lang1 = (if lang0 = []
                   then (case Request_Cookie r ''lang'' of Inr v \<Rightarrow> v | Inl err \<Rightarrow> lang0)
                   else lang0);
          lang = (if lang1 \<noteq> ''en'' \<and> lang1 \<noteq> ''th'' then ''th'' else lang1);
          w1 = SetCookie
                 \<lparr>cookie_Name = ''lang'', cookie_Value = lang, cookie_Path = ''/'',
                  cookie_MaxAge = 31536000, cookie_HttpOnly = False,
                  cookie_SameSite = SameSiteLaxMode\<rparr> w
      in case os_ReadDir env of
           Inl err \<Rightarrow> http_Error w1 ''Could not read posts'' 500
         | Inr files \<Rightarrow>
             renderPage env w1 ''Home'' (homeContent env lang (postIndex env lang files)))"

section \<open>The post page\<close>

text \<open>
  \<open>PostHandler(sl)\<close>: the reader \<open>sl.Read\<close> is a parameter. Beside the response, the
  model returns the slugs the handler passed to \<open>sl.Read\<close>, in order: the empty list
  when the reader was not called.
\<close>

definition postHTML :: "string \<Rightarrow> PostFrontmatter \<Rightarrow> string \<Rightarrow> string" where
  \<open>postHTML title fm rendered =
     ''<article>\<newline>''
     @ ''<div class="post-header">\<newline>''
     @ ''<h1>'' @ HTMLEscapeString title @ ''</h1>\<newline>''
     @ (if fm_Date fm \<noteq> [] then
          (case time_Parse (fm_Date fm) of
             Inr t \<Rightarrow> ''<span class="post-meta">'' @ Format t @ ''</span>\<newline>''
           | Inl err \<Rightarrow> [])
        else [])
     @ ''</div>\<newline>''
     @ rendered
     @ ''</article>''\<close>

definition PostHandler ::
  "Env \<Rightarrow> (string \<Rightarrow> error + string) \<Rightarrow> Request \<Rightarrow> ResponseWriter \<times> string list" where
  "PostHandler env sl_Read r =
     (let w = setSecurityHeaders newResponse;
          slug = PathValue r ''slug''
      in
        if \<not> IsValidSlug slug then (http_Error w ''Invalid post slug'' 400, [])
        else
          (case sl_Read slug of
             Inl err \<Rightarrow> (http_Error w ''Post not found'' 404, [slug])
           | Inr postMarkdown \<Rightarrow>
              let (fm, markdownContent) = ParseFrontmatter (yaml_Unmarshal env) postMarkdown in
              (case goldmark_Convert env markdownContent of
                 Inl err \<Rightarrow> (http_Error w ''Error rendering post'' 500, [slug])
               | Inr rendered \<Rightarrow>
                  let title =
                        (if fm_Title fm = []
                         then toTitleCase env (ReplaceAll slug ''-'' '' '')
                         else fm_Title fm)
                  in (renderPage env w title (postHTML title fm rendered), [slug]))))"

declare TrimLeftSpace.simps [simp del]
declare TrimRightSpace.simps [simp del]
declare decimal.simps [simp del]

section \<open>Notions used to state and to test the properties\<close>

text \<open>The language of a regular expression: the meaning the derivative matcher is checked against.\<close>

inductive_set star :: "string set \<Rightarrow> string set" for L :: "string set" where
  star_nil: "[] \<in> star L"
| star_app: "u \<in> L \<Longrightarrow> v \<in> star L \<Longrightarrow> u @ v \<in> star L"

fun rexp_lang :: "rexp \<Rightarrow> string set" where
  "rexp_lang Zero = {}"
| "rexp_lang One = {[]}"
| "rexp_lang (Cls rs) = {[c] | c. inRanges rs c}"
| "rexp_lang (Alt r s) = rexp_lang r \<union> rexp_lang s"
| "rexp_lang (Seq r s) = {u @ v | u v. u \<in> rexp_lang r \<and> v \<in> rexp_lang s}"
| "rexp_lang (Star r) = star (rexp_lang r)"

text \<open>The character classes, by enumeration.\<close>

definition isAsciiLetter :: "char \<Rightarrow> bool" where
  "isAsciiLetter c =
     (c \<in> set ''abcdefghijklmnopqrstuvwxyz'' \<or> c \<in> set ''ABCDEFGHIJKLMNOPQRSTUVWXYZ'')"

definition isAsciiDigit :: "char \<Rightarrow> bool" where
  "isAsciiDigit c = (c \<in> set ''0123456789'')"

text \<open>
  The reader of the repository's tests (\<open>MockSlugReader\<close>: a map from slugs to contents,
  \<open>os.ErrNotExist\<close> for a missing slug), and a request that carries a path value only.
\<close>

definition MockSlugReader :: "(string \<times> string) list \<Rightarrow> string \<Rightarrow> error + string" where
  "MockSlugReader content slug =
     (case map_of content slug of
        Some c \<Rightarrow> Inr c
      | None \<Rightarrow> Inl (Err ''file does not exist''))"

definition slugRequest :: "string \<Rightarrow> Request" where
  "slugRequest slug =
     \<lparr>Query = (\<lambda>k. []), Cookies = [], PathValues = (\<lambda>k. if k = ''slug'' then slug else [])\<rparr>"

text \<open>
  A stand-in for the YAML decoder, to run the model on concrete documents: a table of what
  \<open>yaml.Unmarshal\<close> of yaml.v3 does on six metadata blocks. On the block whose title is a
  sequence it reports a type error for the title and still decodes the date (a type
  mismatch does not stop yaml.v3: decoding continues with the remaining fields and a
  \<open>*yaml.TypeError\<close> is returned at the end). Only the theorems on concrete inputs use
  it; the general ones hold for every decoder.
\<close>

definition sampleYaml :: yaml_decoder where
  "sampleYaml block fm =
     (if block = ''\<newline>title: Test Post\<newline>date: 2026-01-15\<newline>''
      then (fm\<lparr>fm_Title := ''Test Post'', fm_Date := ''2026-01-15''\<rparr>, None)
      else if block = ''\<newline>title: Getting Started with Go\<newline>date: 2026-01-20\<newline>''
      then (fm\<lparr>fm_Title := ''Getting Started with Go'', fm_Date := ''2026-01-20''\<rparr>, None)
      else if block = ''\<newline>date: 2026-01-15\<newline>''
      then (fm\<lparr>fm_Date := ''2026-01-15''\<rparr>, None)
      else if block = ''\<newline>date: 0000-06-15\<newline>''
      then (fm\<lparr>fm_Date := ''0000-06-15''\<rparr>, None)
      else if block = ''\<newline>title: [a, b]\<newline>date: 2026-01-15\<newline>''
      then (fm\<lparr>fm_Date := ''2026-01-15''\<rparr>,
            Some (Err ''yaml: unmarshal errors: line 2: cannot unmarshal !!seq into string''))
      else (fm, None))"

text \<open>
  Stand-ins for the other collaborators, to run the model on concrete inputs. The caser
  capitalises the first letter of each word of ASCII letters and lowers the others, as
  \<open>cases.Title(language.English)\<close> does on such words; the template is the one of the
  repository's tests; the Markdown converter wraps its input in a paragraph; the sort of
  long slices is a sort that keeps the promise of \<open>sort.Slice\<close> (the sample inputs of
  \<open>sampleEnv\<close> never reach it: their slices are short).
\<close>

definition upperAscii :: "char \<Rightarrow> char" where
  "upperAscii c =
     (case map_of (zip ''abcdefghijklmnopqrstuvwxyz'' ''ABCDEFGHIJKLMNOPQRSTUVWXYZ'') c of
        Some u \<Rightarrow> u | None \<Rightarrow> c)"

definition lowerAscii :: "char \<Rightarrow> char" where
  "lowerAscii c =
     (case map_of (zip ''ABCDEFGHIJKLMNOPQRSTUVWXYZ'' ''abcdefghijklmnopqrstuvwxyz'') c of
        Some l \<Rightarrow> l | None \<Rightarrow> c)"

fun titleWords :: "bool \<Rightarrow> string \<Rightarrow> string" where
  "titleWords start [] = []"
| "titleWords start (c # cs) =
     (if c = CHR '' '' then c # titleWords True cs
      else (if start then upperAscii c else lowerAscii c) # titleWords False cs)"

definition sampleTemplate :: "PageData \<Rightarrow> string \<times> error option" where
  "sampleTemplate dat =
     (''<!DOCTYPE html><html><head><title>'' @ HTMLEscapeString (page_Title dat)
      @ ''</title></head><body>'' @ Content dat @ ''</body></html>'', None)"

definition sampleEnv :: Env where
  \<open>sampleEnv =
     \<lparr>yaml_Unmarshal = sampleYaml,
      cases_Title = titleWords True,
      goldmark_Convert = (\<lambda>md. Inr (''<p>'' @ md @ ''</p>\<newline>'')),
      tmpl_Execute = sampleTemplate,
      sort_long = insertionSort_func,
      os_ReadDir = Inr [],
      welcomeTitle_th = ''(welcome title, Thai)'',
      welcomeText_th = ''(welcome text, Thai)'',
      postsHeading_th = ''(posts heading, Thai)'',
      contact_th = ''<div class="contact-page">(Thai)</div>'',
      contact_en = ''<div class="contact-page">(English)</div>''\<rparr>\<close>

text \<open>
  What \<open>sort.Slice\<close> promises for the comparison of \<open>HomeHandler\<close>, asked of the part
  taken from outside: on a slice of more than twelve elements the result is a
  rearrangement of the slice in which no element is less than an element before it.
  (It does not promise to keep the order of elements that compare equal.)
\<close>

definition sortContract :: "Env \<Rightarrow> bool" where
  "sortContract env =
     (\<forall>xs. 12 < length xs \<longrightarrow>
        mset (sort_long env newerFirst xs) = mset xs
        \<and> sorted_wrt (\<lambda>a b. \<not> newerFirst b a) (sort_long env newerFirst xs))"

text \<open>The language filter of the loop, as a predicate on the slug.\<close>

definition passesLanguage :: "string \<Rightarrow> string \<Rightarrow> bool" where
  "passesLanguage lang slug =
     (\<not> ((HasPrefix slug ''th-'' \<or> HasPrefix slug ''en-'') \<and> \<not> HasPrefix slug (lang @ ''-'')))"

text \<open>Sample directory entries.\<close>

definition gettingStartedFile :: DirEntry where
  "gettingStartedFile =
     \<lparr>Name = ''en-getting-started.md'',
      Contents =
        Inr ''---\<newline>title: Getting Started with Go\<newline>date: 2026-01-20\<newline>---\<newline>\<newline>## Why Go?'',
      ModTime = Some (DateUTC 2026 1 21)\<rparr>"

definition testPostFile :: DirEntry where
  "testPostFile =
     \<lparr>Name = ''test-post.md'',
      Contents = Inr ''---\<newline>title: Test Post\<newline>date: 2026-01-15\<newline>---\<newline>\<newline># Hi'',
      ModTime = Some (DateUTC 2026 1 21)\<rparr>"

definition announcementFile :: DirEntry where
  "announcementFile =
     \<lparr>Name = ''announcement.md'', Contents = Inr ''Hello.'', ModTime = Some (DateUTC 2026 1 2)\<rparr>"

definition ancientFile :: DirEntry where
  "ancientFile =
     \<lparr>Name = ''ancient.md'',
      Contents = Inr ''---\<newline>date: 0000-06-15\<newline>---\<newline>Long ago.'',
      ModTime = Some (DateUTC 2026 1 2)\<rparr>"

definition undatedFile :: DirEntry where
  "undatedFile = \<lparr>Name = ''undated.md'', Contents = Inr ''No date.'', ModTime = None\<rparr>"

definition unreadableFile :: DirEntry where
  "unreadableFile =
     \<lparr>Name = ''announcement.md'',
      Contents = Inl (Err ''open posts/announcement.md: permission denied''),
      ModTime = Some (DateUTC 2026 1 2)\<rparr>"

text \<open>The sample collaborators with a directory of two posts.\<close>

definition sampleSite :: Env where
  "sampleSite = sampleEnv\<lparr>os_ReadDir := Inr [testPostFile, gettingStartedFile]\<rparr>"

text \<open>
  A stand-in for the sort of long slices, to run the model on a directory of thirteen
  posts: \<open>pdqsort_func\<close> of Go 1.22 (package \<open>sort\<close>, file \<open>zsortfunc.go\<close>) as far as it
  runs on a slice of fewer than 50 elements while every partition is balanced. Each round
  sorts a range of at most twelve elements by insertion; on a longer range
  \<open>choosePivot_func\<close> takes the median of the elements at \<open>a + l/4\<close>, \<open>a + l/4*2\<close> and
  \<open>a + l/4*3\<close> and counts the swaps it made, \<open>partialInsertionSort_func\<close> finds whether
  the range is in order already (it moves nothing in a range of fewer than 50 elements),
  \<open>partition_func\<close> swaps the pivot to the front, partitions the rest of the range into
  the elements less than the pivot and the others and puts the pivot between them, and
  the shorter side is sorted before the longer one. The result is \<open>None\<close> where
  \<open>pdqsort_func\<close> goes on to code that is not written out here: \<open>heapSort_func\<close> (when
  \<open>limit\<close> is 0), \<open>breakPatterns_func\<close> (after an unbalanced partition), the ninther of
  \<open>choosePivot_func\<close> and the reversal of a decreasing range (50 elements or more),
  \<open>partitionEqual_func\<close>; and when the rounds allowed by the first argument are used up.
  \<open>data.Swap(i, j)\<close> is \<open>Swap data i j\<close> and \<open>data.Less(i, j)\<close> is
  \<open>lt (data ! i) (data ! j)\<close>; \<open>scanUp\<close> and \<open>scanDown\<close> are the two inner loops of
  \<open>partition_func\<close>, \<open>for i <= j && less(i, a) { i++ }\<close> and
  \<open>for i <= j && !less(j, a) { j-- }\<close>; \<open>partitionLoop\<close> is its outer loop.
\<close>

datatype sortedHint = unknownHint | increasingHint | decreasingHint

definition Swap :: "'a list \<Rightarrow> nat \<Rightarrow> nat \<Rightarrow> 'a list" where
  "Swap data i j = data[i := data ! j, j := data ! i]"

definition insertionSortRange :: "('a \<Rightarrow> 'a \<Rightarrow> bool) \<Rightarrow> 'a list \<Rightarrow> nat \<Rightarrow> nat \<Rightarrow> 'a list" where
  "insertionSortRange lt data a b =
     take a data @ insertionSort_func lt (take (b - a) (drop a data)) @ drop b data"

definition order2_func ::
  "('a \<Rightarrow> 'a \<Rightarrow> bool) \<Rightarrow> 'a list \<Rightarrow> nat \<Rightarrow> nat \<Rightarrow> nat \<Rightarrow> nat \<times> nat \<times> nat" where
  "order2_func lt data a b swaps =
     (if lt (data ! b) (data ! a) then (b, a, swaps + 1) else (a, b, swaps))"

definition median_func ::
  "('a \<Rightarrow> 'a \<Rightarrow> bool) \<Rightarrow> 'a list \<Rightarrow> nat \<Rightarrow> nat \<Rightarrow> nat \<Rightarrow> nat \<Rightarrow> nat \<times> nat" where
  "median_func lt data a b c swaps =
     (let (a1, b1, s1) = order2_func lt data a b swaps;
          (b2, c2, s2) = order2_func lt data b1 c s1;
          (a3, b3, s3) = order2_func lt data a1 b2 s2
      in (b3, s3))"

definition choosePivot_func ::
  "('a \<Rightarrow> 'a \<Rightarrow> bool) \<Rightarrow> 'a list \<Rightarrow> nat \<Rightarrow> nat \<Rightarrow> (nat \<times> sortedHint) option" where
  "choosePivot_func lt data a b =
     (let l = b - a;
          i = a + l div 4 * 1;
          j = a + l div 4 * 2;
          k = a + l div 4 * 3
      in if 50 \<le> l then None
         else
           let (j1, swaps) = (if 8 \<le> l then median_func lt data i j k 0 else (j, 0))
           in Some (j1, if swaps = 0 then increasingHint
                        else if swaps = 12 then decreasingHint else unknownHint))"

definition partialInsertionSort_func ::
  "('a \<Rightarrow> 'a \<Rightarrow> bool) \<Rightarrow> 'a list \<Rightarrow> nat \<Rightarrow> nat \<Rightarrow> bool option" where
  "partialInsertionSort_func lt data a b =
     (if list_all (\<lambda>i. \<not> lt (data ! i) (data ! (i - 1))) [a + 1 ..< b] then Some True
      else if b - a < 50 then Some False
      else None)"

definition scanUp :: "(nat \<Rightarrow> bool) \<Rightarrow> nat \<Rightarrow> nat \<Rightarrow> nat" where
  "scanUp P i j = i + length (takeWhile P [i ..< j + 1])"

definition scanDown :: "(nat \<Rightarrow> bool) \<Rightarrow> nat \<Rightarrow> nat \<Rightarrow> nat" where
  "scanDown P i j = j - length (takeWhile P (rev [i ..< j + 1]))"

function partitionLoop ::
  "('a \<Rightarrow> 'a \<Rightarrow> bool) \<Rightarrow> 'a list \<Rightarrow> nat \<Rightarrow> nat \<Rightarrow> nat \<Rightarrow> 'a list \<times> nat" where
  "partitionLoop lt data a i j =
     (let i1 = scanUp (\<lambda>k. lt (data ! k) (data ! a)) i j;
          j1 = scanDown (\<lambda>k. \<not> lt (data ! k) (data ! a)) i1 j
      in if j1 < i1 then (data, j1)
         else partitionLoop lt (Swap data i1 j1) a (i1 + 1) (j1 - 1))"
  by pat_completeness auto
termination
  by (relation "measure (\<lambda>(lt, data, a, i, j). j + 1 - i)") (auto simp: scanUp_def scanDown_def)

declare partitionLoop.simps [simp del]

definition partition_func ::
  "('a \<Rightarrow> 'a \<Rightarrow> bool) \<Rightarrow> 'a list \<Rightarrow> nat \<Rightarrow> nat \<Rightarrow> nat \<Rightarrow> 'a list \<times> nat \<times> bool" where
  "partition_func lt data a b pivot =
     (let d0 = Swap data a pivot;
          i = scanUp (\<lambda>k. lt (d0 ! k) (d0 ! a)) (a + 1) (b - 1);
          j = scanDown (\<lambda>k. \<not> lt (d0 ! k) (d0 ! a)) i (b - 1)
      in if j < i then (Swap d0 j a, j, True)
         else
           let (d1, j1) = partitionLoop lt (Swap d0 i j) a (i + 1) (j - 1)
           in (Swap d1 j1 a, j1, False))"

primrec pdqsort_func ::
  "nat \<Rightarrow> ('a \<Rightarrow> 'a \<Rightarrow> bool) \<Rightarrow> 'a list \<Rightarrow> nat \<Rightarrow> nat \<Rightarrow> nat \<Rightarrow> bool \<Rightarrow> bool \<Rightarrow> 'a list option" where
  "pdqsort_func 0 lt data a b limit wasBalanced wasPartitioned = None"
| "pdqsort_func (Suc rounds) lt data a b limit wasBalanced wasPartitioned =
     (if b - a \<le> 12 then Some (insertionSortRange lt data a b)
      else if limit = 0 \<or> \<not> wasBalanced then None
      else
        case choosePivot_func lt data a b of
          None \<Rightarrow> None
        | Some (pivot, hint) \<Rightarrow>
            if hint = decreasingHint then None
            else if wasPartitioned \<and> hint = increasingHint
                    \<and> partialInsertionSort_func lt data a b = Some True
            then Some data
            else if 0 < a \<and> \<not> lt (data ! (a - 1)) (data ! pivot) then None
            else
              let (d1, mid, alreadyPartitioned) = partition_func lt data a b pivot;
                  leftLen = mid - a;
                  rightLen = b - mid;
                  balanceThreshold = (b - a) div 8
              in if leftLen < rightLen
                 then (case pdqsort_func rounds lt d1 a mid limit True True of
                         None \<Rightarrow> None
                       | Some d2 \<Rightarrow>
                           pdqsort_func rounds lt d2 (mid + 1) b limit
                             (balanceThreshold \<le> leftLen) alreadyPartitioned)
                 else (case pdqsort_func rounds lt d1 (mid + 1) b limit True True of
                         None \<Rightarrow> None
                       | Some d2 \<Rightarrow>
                           pdqsort_func rounds lt d2 a mid limit
                             (balanceThreshold \<le> rightLen) alreadyPartitioned))"

text \<open>
  \<open>sort.Slice\<close> on a long slice: the rounds above from \<open>pdqsort_func(data, 0, n, limit)\<close>
  with \<open>limit = bits.Len(n)\<close>, the number of binary digits of \<open>n\<close>. (Where the rounds
  give no result the stand-in sorts by insertion; the directory below does not get there.)
\<close>

fun bits_Len :: "nat \<Rightarrow> nat" where
  "bits_Len n = (if n = 0 then 0 else 1 + bits_Len (n div 2))"

declare bits_Len.simps [simp del]

definition pdqsortSample :: "('a \<Rightarrow> 'a \<Rightarrow> bool) \<Rightarrow> 'a list \<Rightarrow> 'a list" where
  "pdqsortSample lt xs =
     (case pdqsort_func (length xs) lt xs 0 (length xs) (bits_Len (length xs)) True True of
        Some ys \<Rightarrow> ys
      | None \<Rightarrow> insertionSort_func lt xs)"

definition crowdedSite :: Env where
  "crowdedSite = sampleEnv\<lparr>sort_long := pdqsortSample\<rparr>"

text \<open>A directory of thirteen posts: twelve of one day, and a later one.\<close>

definition sameDayFile :: "string \<Rightarrow> DirEntry" where
  "sameDayFile stem =
     \<lparr>Name = stem @ ''.md'',
      Contents = Inr ''---\<newline>date: 2026-01-15\<newline>---\<newline>Notes.'',
      ModTime = Some (DateUTC 2026 1 21)\<rparr>"

definition sameDayPost :: "string \<Rightarrow> Post" where
  "sameDayPost stem =
     \<lparr>Slug = stem, Title = titleWords True stem, Date = DateUTC 2026 1 15,
      DateStr = ''Jan 15, 2026''\<rparr>"

definition crowdedFiles :: "DirEntry list" where
  "crowdedFiles =
     map sameDayFile
       [''a00'', ''a01'', ''a02'', ''a03'', ''a04'', ''a05'',
        ''a06'', ''a07'', ''a08'', ''a09'', ''a10'', ''a11'']
     @ [gettingStartedFile]"

text \<open>
  The locale as the specification words it: the \<open>lang\<close> query parameter if it is present
  and not empty, else the \<open>lang\<close> cookie; \<open>en\<close> and \<open>th\<close> are recognised, anything else
  is \<open>th\<close>.
\<close>

definition selectedLang :: "Request \<Rightarrow> string" where
  "selectedLang r =
     (let q = (case Query r ''lang'' of [] \<Rightarrow> [] | v # _ \<Rightarrow> v) in
      if q \<noteq> [] then q
      else (case map_of (Cookies r) ''lang'' of None \<Rightarrow> [] | Some v \<Rightarrow> v))"

definition specLocale :: "Request \<Rightarrow> string" where
  "specLocale r =
     (if selectedLang r = ''en'' \<or> selectedLang r = ''th'' then selectedLang r else ''th'')"

definition langRequest :: "string list \<Rightarrow> (string \<times> string) list \<Rightarrow> Request" where
  "langRequest q cookies =
     \<lparr>Query = (\<lambda>k. if k = ''lang'' then q else []), Cookies = cookies,
      PathValues = (\<lambda>k. [])\<rparr>"

text \<open>
  A page fragment as a list of pieces: fixed markup, text that is HTML-escaped when the
  fragment is rendered, and trusted HTML that is inserted as it is.
\<close>

datatype piece = Markup string | Text string | Trusted string

fun renderPiece :: "piece \<Rightarrow> string" where
  "renderPiece (Markup m) = m"
| "renderPiece (Text t) = HTMLEscapeString t"
| "renderPiece (Trusted h) = h"

definition renderPieces :: "piece list \<Rightarrow> string" where
  "renderPieces ps = concat (map renderPiece ps)"

definition homePieces :: "Env \<Rightarrow> string \<Rightarrow> Post list \<Rightarrow> piece list" where
  \<open>homePieces env lang posts =
     [Markup ''<h1>'',
      Text (if lang = ''th'' then welcomeTitle_th env else ''Welcome to LearnArai''),
      Markup ''</h1>\<newline><p class="about-me">'',
      Text (if lang = ''th'' then welcomeText_th env else welcomeText_en),
      Markup ''</p>\<newline><h2 class="posts-heading">'',
      Text (if lang = ''th'' then postsHeading_th env else ''Posts''),
      Markup ''</h2>\<newline><ul class="post-list">\<newline>'']
     @ concat (map (\<lambda>post.
         [Markup ''<li><a href="/posts/'', Text (Slug post), Markup ''">'', Text (Title post),
          Markup ''</a><span class="post-date">'', Text (DateStr post),
          Markup ''</span></li>\<newline>'']) posts)
     @ [Markup ''</ul>\<newline>'']\<close>

definition postPieces :: "string \<Rightarrow> PostFrontmatter \<Rightarrow> string \<Rightarrow> piece list" where
  \<open>postPieces title fm rendered =
     [Markup ''<article>\<newline><div class="post-header">\<newline><h1>'', Text title,
      Markup ''</h1>\<newline>'']
     @ (if fm_Date fm \<noteq> [] then
          (case time_Parse (fm_Date fm) of
             Inr t \<Rightarrow> [Markup ''<span class="post-meta">'', Text (Format t),
                       Markup ''</span>\<newline>'']
           | Inl err \<Rightarrow> [])
        else [])
     @ [Markup ''</div>\<newline>'', Trusted rendered, Markup ''</article>'']\<close>

text \<open>The characters a formatted date can hold.\<close>

definition plainChars :: string where
  "plainChars = ''0123456789-, %!MJanFebrApyulgSOctNovD''"

section \<open>Properties of the strings functions\<close>

lemma HasPrefix_iff: "HasPrefix s p \<longleftrightarrow> (\<exists>v. s = p @ v)"
proof
  assume "HasPrefix s p"
  then have "s = p @ drop (length p) s"
    by (metis HasPrefix_def append_take_drop_id)
  then show "\<exists>v. s = p @ v" ..
next
  assume "\<exists>v. s = p @ v"
  then show "HasPrefix s p" by (auto simp: HasPrefix_def)
qed

lemma HasPrefix_take3: "HasPrefix s ''---'' \<longleftrightarrow> take 3 s = ''---''"
proof
  assume "HasPrefix s ''---''"
  then show "take 3 s = ''---''" by (simp add: HasPrefix_def eval_nat_numeral)
next
  assume a: "take 3 s = ''---''"
  then have "length (take 3 s) = 3" by simp
  then have "3 \<le> length s" by simp
  with a show "HasPrefix s ''---''" by (simp add: HasPrefix_def eval_nat_numeral)
qed

lemma Index_None_iff:
  assumes "sep \<noteq> []"
  shows "Index s sep = None \<longleftrightarrow> \<not> (\<exists>u v. s = u @ sep @ v)"
proof (induction s)
  case Nil
  with assms show ?case by simp
next
  case (Cons c cs)
  have split: "(\<exists>u v. c # cs = u @ sep @ v) \<longleftrightarrow>
               (\<exists>v. c # cs = sep @ v) \<or> (\<exists>u v. cs = u @ sep @ v)"
  proof
    assume "\<exists>u v. c # cs = u @ sep @ v"
    then obtain u v where uv: "c # cs = u @ sep @ v" by blast
    show "(\<exists>v. c # cs = sep @ v) \<or> (\<exists>u v. cs = u @ sep @ v)"
    proof (cases u)
      case Nil
      with uv show ?thesis by auto
    next
      case (Cons a u')
      with uv have "cs = u' @ sep @ v" by simp
      then show ?thesis by blast
    qed
  next
    assume "(\<exists>v. c # cs = sep @ v) \<or> (\<exists>u v. cs = u @ sep @ v)"
    then show "\<exists>u v. c # cs = u @ sep @ v"
    proof
      assume "\<exists>v. c # cs = sep @ v"
      then obtain v where "c # cs = [] @ sep @ v" by auto
      then show ?thesis by blast
    next
      assume "\<exists>u v. cs = u @ sep @ v"
      then obtain u v where "c # cs = (c # u) @ sep @ v" by auto
      then show ?thesis by blast
    qed
  qed
  show ?case
    using Cons.IH by (simp add: split HasPrefix_iff)
qed

lemma Index_first:
  assumes "sep \<noteq> []" and "\<not> (\<exists>u v. b @ butlast sep = u @ sep @ v)"
  shows "Index (b @ sep @ r) sep = Some (length b)"
  using assms(2)
proof (induction b)
  case Nil
  obtain c cs where "sep @ r = c # cs" using assms(1) by (cases sep) auto
  moreover have "HasPrefix (sep @ r) sep" by (auto simp: HasPrefix_iff)
  ultimately show ?case by simp
next
  case (Cons c b)
  have no0: "\<not> HasPrefix (c # b @ sep @ r) sep"
  proof
    assume "HasPrefix (c # b @ sep @ r) sep"
    then have t: "take (length sep) ((c # b) @ sep @ r) = sep"
      by (simp add: HasPrefix_def)
    have "length sep \<le> length ((c # b) @ butlast sep)" by simp
    then have "take (length sep) ((c # b) @ butlast sep) = sep"
      using t
      by (metis (no_types, lifting) append.assoc append_butlast_last_id append_eq_append_conv_if
          append_take_drop_id assms(1) length_append length_take min.absorb2 take_all
          take_append nat_le_linear)
    then have "(c # b) @ butlast sep = [] @ sep @ drop (length sep) ((c # b) @ butlast sep)"
      by (metis append_Nil append_take_drop_id)
    with Cons.prems show False by blast
  qed
  have "\<not> (\<exists>u v. b @ butlast sep = u @ sep @ v)"
  proof
    assume "\<exists>u v. b @ butlast sep = u @ sep @ v"
    then obtain u v where "b @ butlast sep = u @ sep @ v" by blast
    then have "(c # b) @ butlast sep = (c # u) @ sep @ v" by simp
    with Cons.prems show False by blast
  qed
  with Cons.IH have "Index (b @ sep @ r) sep = Some (length b)" by simp
  with no0 show ?case by simp
qed

lemma SplitN_2:
  "SplitN s sep 2 =
     (case Index s sep of None \<Rightarrow> [s] | Some m \<Rightarrow> [take m s, drop (m + length sep) s])"
  by (simp add: numeral_2_eq_2 split: option.splits)

lemma no_delimiter_iff: "Index s ''---'' = None \<longleftrightarrow> \<not> (\<exists>u v. s = u @ ''---'' @ v)"
  by (rule Index_None_iff) simp

section \<open>Properties of the regular expression matcher\<close>

lemma nullable_lang: "nullable r \<longleftrightarrow> [] \<in> rexp_lang r"
  by (induction r) (auto intro: star.star_nil)

lemma star_cons_split:
  assumes "x \<in> star L" and "x = c # w"
  shows "\<exists>u v. w = u @ v \<and> c # u \<in> L \<and> v \<in> star L"
  using assms
proof (induction arbitrary: w rule: star.induct)
  case star_nil
  then show ?case by simp
next
  case (star_app u v)
  show ?case
  proof (cases u)
    case Nil
    with star_app show ?thesis by simp
  next
    case (Cons a u')
    with star_app.prems have "a = c" and "w = u' @ v" by simp_all
    with star_app.hyps Cons show ?thesis by blast
  qed
qed

lemma star_cons_iff:
  "c # w \<in> star L \<longleftrightarrow> (\<exists>u v. w = u @ v \<and> c # u \<in> L \<and> v \<in> star L)"
proof
  assume "c # w \<in> star L"
  then show "\<exists>u v. w = u @ v \<and> c # u \<in> L \<and> v \<in> star L"
    using star_cons_split by blast
next
  assume "\<exists>u v. w = u @ v \<and> c # u \<in> L \<and> v \<in> star L"
  then obtain u v where "w = u @ v" "c # u \<in> L" "v \<in> star L" by blast
  then show "c # w \<in> star L"
    using star.star_app [of "c # u" L v] by simp
qed

lemma lang_SeqI: "u \<in> rexp_lang r \<Longrightarrow> v \<in> rexp_lang s \<Longrightarrow> u @ v \<in> rexp_lang (Seq r s)"
  by auto

lemma lang_deriv: "w \<in> rexp_lang (deriv c r) \<longleftrightarrow> c # w \<in> rexp_lang r"
proof (induction r arbitrary: w)
  case (Seq r s)
  show ?case
  proof
    assume a: "w \<in> rexp_lang (deriv c (Seq r s))"
    have "(\<exists>u v. w = u @ v \<and> u \<in> rexp_lang (deriv c r) \<and> v \<in> rexp_lang s)
          \<or> (nullable r \<and> w \<in> rexp_lang (deriv c s))"
      using a by (auto split: if_splits)
    then show "c # w \<in> rexp_lang (Seq r s)"
    proof
      assume "\<exists>u v. w = u @ v \<and> u \<in> rexp_lang (deriv c r) \<and> v \<in> rexp_lang s"
      then obtain u v where "w = u @ v" "c # u \<in> rexp_lang r" "v \<in> rexp_lang s"
        using Seq.IH(1) by blast
      then show ?thesis using lang_SeqI [of "c # u" r v s] by simp
    next
      assume "nullable r \<and> w \<in> rexp_lang (deriv c s)"
      then have "[] \<in> rexp_lang r" "c # w \<in> rexp_lang s"
        using Seq.IH(2) by (simp_all add: nullable_lang)
      then show ?thesis using lang_SeqI [of "[]" r "c # w" s] by simp
    qed
  next
    assume "c # w \<in> rexp_lang (Seq r s)"
    then obtain u v where uv: "c # w = u @ v" "u \<in> rexp_lang r" "v \<in> rexp_lang s" by auto
    show "w \<in> rexp_lang (deriv c (Seq r s))"
    proof (cases u)
      case Nil
      with uv Seq show ?thesis by (auto simp: nullable_lang)
    next
      case (Cons a u')
      with uv Seq show ?thesis by (auto simp: nullable_lang)
    qed
  qed
next
  case (Star r)
  then show ?case by (auto simp: star_cons_iff)
qed auto

lemma matches_lang: "matches r s \<longleftrightarrow> s \<in> rexp_lang r"
  by (induction s arbitrary: r) (auto simp: nullable_lang lang_deriv)

lemma star_Cls: "star {[c] | c. P c} = {s. \<forall>c \<in> set s. P c}"
proof (rule set_eqI, rule iffI)
  fix s assume "s \<in> star {[c] | c. P c}"
  then show "s \<in> {s. \<forall>c \<in> set s. P c}"
    by (induction rule: star.induct) auto
next
  fix s assume "s \<in> {s. \<forall>c \<in> set s. P c}"
  then show "s \<in> star {[c] | c. P c}"
  proof (induction s)
    case Nil
    show ?case by (rule star.star_nil)
  next
    case (Cons a s)
    then have "[a] \<in> {[c] | c. P c}" and "s \<in> star {[c] | c. P c}" by auto
    then show ?case using star.star_app [of "[a]" _ s] by simp
  qed
qed

lemma lang_Plus_Cls:
  "rexp_lang (Plus (Cls rs)) = {s. s \<noteq> [] \<and> (\<forall>c \<in> set s. inRanges rs c)}"
proof (rule set_eqI, rule iffI)
  fix s assume "s \<in> rexp_lang (Plus (Cls rs))"
  then show "s \<in> {s. s \<noteq> [] \<and> (\<forall>c \<in> set s. inRanges rs c)}"
    by (auto simp: Plus_def star_Cls)
next
  fix s assume "s \<in> {s. s \<noteq> [] \<and> (\<forall>c \<in> set s. inRanges rs c)}"
  then obtain a t where s: "s = a # t" and a: "inRanges rs a" and t: "\<forall>c \<in> set t. inRanges rs c"
    by (cases s) auto
  have "[a] \<in> rexp_lang (Cls rs)" using a by simp
  moreover have "t \<in> rexp_lang (Star (Cls rs))" using t by (simp add: star_Cls)
  ultimately have "[a] @ t \<in> rexp_lang (Seq (Cls rs) (Star (Cls rs)))" by (rule lang_SeqI)
  then show "s \<in> rexp_lang (Plus (Cls rs))" by (simp add: s Plus_def)
qed

lemma matches_anchored:
  "matches (Seq One (Seq r One)) s \<longleftrightarrow> s \<in> rexp_lang r"
  by (simp add: matches_lang)

lemma slug_class:
  "inRanges [(CHR ''a'', CHR ''z''), (CHR ''A'', CHR ''Z''), (CHR ''0'', CHR ''9''),
             (CHR ''_'', CHR ''_''), (CHR ''-'', CHR ''-'')] c
   \<longleftrightarrow> isAsciiLetter c \<or> isAsciiDigit c \<or> c = CHR ''-'' \<or> c = CHR ''_''"
  by (cases c) (simp add: inRanges_def isAsciiLetter_def isAsciiDigit_def)

lemma IsValidSlug_chars:
  "IsValidSlug s \<longleftrightarrow>
     s \<noteq> [] \<and> (\<forall>c \<in> set s. isAsciiLetter c \<or> isAsciiDigit c \<or> c = CHR ''-'' \<or> c = CHR ''_'')"
proof -
  have anchored: "rexp_lang (Seq One (Seq r One)) = rexp_lang r" for r by auto
  show ?thesis
    unfolding IsValidSlug_def MatchString_def validSlugRegex_def
    by (simp add: matches_lang anchored lang_Plus_Cls slug_class del: rexp_lang.simps)
qed

lemma status_http_Error_fresh [simp]:
  "status (http_Error (setSecurityHeaders newResponse) msg code) = code"
  by (simp add: status_def http_Error_def Write_def WriteHeader_def Header_Set_def
      setSecurityHeaders_def newResponse_def Let_def)

lemma ParseFrontmatter_no_prefix:
  "take 3 content \<noteq> ''---'' \<Longrightarrow>
   ParseFrontmatter yaml content = (\<lparr>fm_Title = [], fm_Date = []\<rparr>, content)"
  by (simp add: ParseFrontmatter_def HasPrefix_take3)

section \<open>Properties of the post index\<close>

lemma HasPrefix_take: "length p = 3 \<Longrightarrow> HasPrefix s p \<longleftrightarrow> take 3 s = p"
proof
  assume "length p = 3" "HasPrefix s p"
  then show "take 3 s = p" by (simp add: HasPrefix_def)
next
  assume l: "length p = 3" and a: "take 3 s = p"
  then have "length (take 3 s) = 3" by simp
  then have "3 \<le> length s" by simp
  with a l show "HasPrefix s p" by (simp add: HasPrefix_def)
qed

lemma Format_nonempty: "Format t \<noteq> []"
  by (simp add: Format_def)

lemma TrimSuffix_append: "TrimSuffix (stem @ suffix) suffix = stem"
  by (simp add: TrimSuffix_def HasSuffix_def)

lemma HasSuffix_append: "HasSuffix (stem @ suffix) suffix"
  by (simp add: HasSuffix_def)

lemma indexEntry_SomeD:
  assumes "indexEntry env lang f = Some p"
  shows "HasSuffix (Name f) ''.md''"
    and "Slug p = TrimSuffix (Name f) ''.md''"
    and "\<exists>c. Contents f = Inr c"
    and "passesLanguage lang (Slug p)"
    and "DateStr p = [] \<Longrightarrow> Date p = zeroTime"
  using assms
  by (auto simp: indexEntry_def Let_def passesLanguage_def Format_nonempty
      split: if_splits sum.splits option.splits)

lemma indexEntry_SomeI:
  assumes "HasSuffix (Name f) ''.md''" and "Contents f = Inr c"
    and "passesLanguage lang (TrimSuffix (Name f) ''.md'')"
  shows "\<exists>p. indexEntry env lang f = Some p \<and> Slug p = TrimSuffix (Name f) ''.md''"
  using assms
  by (auto simp: indexEntry_def Let_def passesLanguage_def split: sum.splits option.splits)

lemma set_map_filter_iff:
  "y \<in> set (List.map_filter g xs) \<longleftrightarrow> (\<exists>x \<in> set xs. g x = Some y)"
  by (induction xs) (auto split: option.splits)

lemma bubbleLeft_mset: "mset (bubbleLeft lt x ys) = add_mset x (mset ys)"
  by (induction ys) auto

lemma bubbleLeft_set: "set (bubbleLeft lt x ys) = insert x (set ys)"
  by (induction ys) auto

lemma bubbleLeft_sorted:
  "sorted_wrt (\<lambda>a b. \<not> newerFirst a b) ys \<Longrightarrow>
   sorted_wrt (\<lambda>a b. \<not> newerFirst a b) (bubbleLeft newerFirst x ys)"
  by (induction ys) (auto simp: bubbleLeft_set newerFirst_def After_def)

lemma insertion_fold:
  "mset (foldl (\<lambda>acc x. bubbleLeft newerFirst x acc) acc xs) = mset acc + mset xs
   \<and> (sorted_wrt (\<lambda>a b. \<not> newerFirst a b) acc \<longrightarrow>
        sorted_wrt (\<lambda>a b. \<not> newerFirst a b) (foldl (\<lambda>acc x. bubbleLeft newerFirst x acc) acc xs))"
  by (induction xs arbitrary: acc) (auto simp: bubbleLeft_mset bubbleLeft_sorted)

lemma insertionSort_mset: "mset (insertionSort_func newerFirst xs) = mset xs"
  using insertion_fold [of "[]" xs] by (simp add: insertionSort_func_def)

lemma insertionSort_sorted:
  "sorted_wrt (\<lambda>a b. \<not> newerFirst b a) (insertionSort_func newerFirst xs)"
  using insertion_fold [of "[]" xs] by (simp add: insertionSort_func_def sorted_wrt_rev)

text \<open>The insertion sort is stable: posts of one date keep their order.\<close>

lemma bubbleLeft_filter:
  "filter (\<lambda>p. instant (Date p) = d) (bubbleLeft newerFirst x ys)
     = (if instant (Date x) = d then x # filter (\<lambda>p. instant (Date p) = d) ys
        else filter (\<lambda>p. instant (Date p) = d) ys)"
  by (induction ys) (auto simp: newerFirst_def After_def)

lemma insertion_fold_filter:
  "filter (\<lambda>p. instant (Date p) = d) (foldl (\<lambda>acc x. bubbleLeft newerFirst x acc) acc xs)
     = rev (filter (\<lambda>p. instant (Date p) = d) xs) @ filter (\<lambda>p. instant (Date p) = d) acc"
  by (induction xs arbitrary: acc) (simp_all add: bubbleLeft_filter)

lemma insertionSort_stable:
  "filter (\<lambda>p. instant (Date p) = d) (insertionSort_func newerFirst xs)
     = filter (\<lambda>p. instant (Date p) = d) xs"
  by (simp add: insertionSort_func_def insertion_fold_filter rev_filter [symmetric])

lemma sort_Slice_mset:
  "sortContract env \<Longrightarrow> mset (sort_Slice env newerFirst xs) = mset xs"
  by (simp add: sort_Slice_def sortContract_def insertionSort_mset)

lemma sort_Slice_sorted:
  "sortContract env \<Longrightarrow> sorted_wrt (\<lambda>a b. \<not> newerFirst b a) (sort_Slice env newerFirst xs)"
  by (simp add: sort_Slice_def sortContract_def insertionSort_sorted)

lemma sortContract_mset:
  "sortContract env \<Longrightarrow> mset (postIndex env lang files) = mset (List.map_filter (indexEntry env lang) files)"
  by (simp add: sort_Slice_mset postIndex_def)

lemma sortContract_set:
  "sortContract env \<Longrightarrow> set (postIndex env lang files) = set (List.map_filter (indexEntry env lang) files)"
  using sortContract_mset mset_eq_setD by blast

lemma sortContract_sorted:
  "sortContract env \<Longrightarrow> sorted_wrt (\<lambda>a b. \<not> After (Date b) (Date a)) (postIndex env lang files)"
  using sort_Slice_sorted [of env "List.map_filter (indexEntry env lang) files"]
  by (simp add: postIndex_def newerFirst_def)

lemma postIndex_short:
  "length (List.map_filter (indexEntry env lang) files) \<le> 12 \<Longrightarrow>
   postIndex env lang files
     = insertionSort_func newerFirst (List.map_filter (indexEntry env lang) files)"
  by (simp add: postIndex_def sort_Slice_def)

lemma postIndex_member:
  assumes "sortContract env" and "p \<in> set (postIndex env lang files)"
  shows "\<exists>f \<in> set files. indexEntry env lang f = Some p"
  using assms by (simp add: sortContract_set set_map_filter_iff)

lemma sortContract_sampleEnv: "sortContract sampleEnv"
  by (simp add: sortContract_def sampleEnv_def insertionSort_mset insertionSort_sorted)

lemma two_element_order:
  assumes "mset xs = {#p, q#}" and "sorted_wrt (\<lambda>a b. \<not> After (Date b) (Date a)) xs"
    and "After (Date p) (Date q)"
  shows "xs = [p, q]"
proof -
  have "mset xs = mset [p, q]" using assms(1) by simp
  then have "length xs = 2" by (metis length_Cons list.size(3) size_mset numeral_2_eq_2)
  then obtain a b where xs: "xs = [a, b]"
    by (metis (no_types, opaque_lifting) Suc_length_conv length_0_conv numeral_2_eq_2)
  with assms(1) have "{#a, b#} = {#p, q#}" by simp
  then have "(a = p \<and> b = q) \<or> (a = q \<and> b = p)"
    by (auto simp: add_eq_conv_diff split: if_splits)
  with assms(2,3) xs show ?thesis by auto
qed

section \<open>Properties of HTML escaping and of the page fragments\<close>

lemma SetCookies_http_Error [simp]: "SetCookies (http_Error w msg code) = SetCookies w"
  by (simp add: http_Error_def Write_def WriteHeader_def Header_Set_def Let_def
      split: option.splits)

lemma HTMLEscapeString_simps [simp]:
  "HTMLEscapeString [] = []"
  "HTMLEscapeString (c # cs) = htmlEscapeByte c @ HTMLEscapeString cs"
  by (simp_all add: HTMLEscapeString_def)

lemma htmlEscapeByte_safe:
  "\<forall>c \<in> set (htmlEscapeByte b). c \<notin> set [CHR 0x00, CHR 0x22, CHR 0x27, CHR ''<'', CHR ''>'']"
  by (simp add: htmlEscapeByte_def)

lemma HTMLEscapeString_safe:
  "\<forall>c \<in> set (HTMLEscapeString s). c \<notin> set [CHR 0x00, CHR 0x22, CHR 0x27, CHR ''<'', CHR ''>'']"
proof (induction s)
  case Nil
  show ?case by simp
next
  case (Cons b s)
  show ?case using htmlEscapeByte_safe [of b] Cons by auto
qed

lemma HTMLEscapeString_plain:
  "set s \<subseteq> set plainChars \<Longrightarrow> HTMLEscapeString s = s"
proof (induction s)
  case Nil
  show ?case by simp
next
  case (Cons c s)
  then have "c \<in> set plainChars" by simp
  then have "htmlEscapeByte c = [c]"
    by (auto simp: plainChars_def htmlEscapeByte_def)
  with Cons show ?case by simp
qed

lemma decimal_plain: "set (decimal n) \<subseteq> set plainChars"
proof (induction n rule: decimal.induct)
  case (1 n)
  have digit: "''0123456789'' ! k \<in> set plainChars" if "k < 10" for k
  proof -
    have "''0123456789'' ! k \<in> set ''0123456789''" using that by (intro nth_mem) simp
    then show ?thesis by (auto simp: plainChars_def)
  qed
  show ?case
  proof (cases "n < 10")
    case True
    then show ?thesis using digit [of n] by (simp add: decimal.simps [of n])
  next
    case False
    then show ?thesis using 1 digit [of "n mod 10"] by (simp add: decimal.simps [of n])
  qed
qed

lemma appendInt_plain: "set (appendInt x w) \<subseteq> set plainChars"
proof -
  have "CHR ''-'' \<in> set plainChars" "CHR ''0'' \<in> set plainChars"
    by (simp_all add: plainChars_def)
  then show ?thesis
    using decimal_plain [of "nat \<bar>x\<bar>"] by (auto simp: appendInt_def Let_def)
qed

lemma shortMonth_plain: "set (shortMonth m) \<subseteq> set plainChars"
proof (cases "1 \<le> m \<and> m \<le> 12")
  case True
  let ?names = "[''Jan'', ''Feb'', ''Mar'', ''Apr'', ''May'', ''Jun'',
                 ''Jul'', ''Aug'', ''Sep'', ''Oct'', ''Nov'', ''Dec'']"
  have sm: "shortMonth m = ?names ! (m - 1)"
    unfolding shortMonth_def using True by (rule if_P)
  have "length ?names = 12" by simp
  then have "m - 1 < length ?names" using True by linarith
  then have mem: "?names ! (m - 1) \<in> set ?names" by (rule nth_mem)
  have safe: "\<forall>n \<in> set ?names. set n \<subseteq> set plainChars"
    by (simp add: plainChars_def)
  from safe mem have "set (?names ! (m - 1)) \<subseteq> set plainChars" by (rule bspec)
  then show ?thesis by (simp only: sm)
next
  case False
  have "shortMonth m = ''%!M''"
    unfolding shortMonth_def using False by (rule if_not_P)
  then show ?thesis by (simp add: plainChars_def)
qed

lemma Format_plain: "set (Format t) \<subseteq> set plainChars"
proof -
  have "CHR '' '' \<in> set plainChars" "CHR '','' \<in> set plainChars"
    by (simp_all add: plainChars_def)
  then show ?thesis
    using shortMonth_plain appendInt_plain by (simp add: Format_def)
qed

lemma HTMLEscapeString_Format: "HTMLEscapeString (Format t) = Format t"
  using Format_plain by (rule HTMLEscapeString_plain)

lemma homeContent_pieces: "homeContent env lang posts = renderPieces (homePieces env lang posts)"
proof -
  have items: \<open>concat (map postItem posts)
      = concat (map renderPiece (concat (map (\<lambda>post.
         [Markup ''<li><a href="/posts/'', Text (Slug post), Markup ''">'', Text (Title post),
          Markup ''</a><span class="post-date">'', Text (DateStr post),
          Markup ''</span></li>\<newline>'']) posts)))\<close>
    by (induction posts) (simp_all add: postItem_def)
  show ?thesis
    by (simp add: homeContent_def homePieces_def renderPieces_def items)
qed

lemma postHTML_pieces: "postHTML title fm rendered = renderPieces (postPieces title fm rendered)"
  by (simp add: postHTML_def postPieces_def renderPieces_def HTMLEscapeString_Format
      split: sum.splits)

lemma requested_lang:
  "(if (if Query_Get r ''lang'' = []
        then (case Request_Cookie r ''lang'' of Inr v \<Rightarrow> v | Inl err \<Rightarrow> Query_Get r ''lang'')
        else Query_Get r ''lang'') \<noteq> ''en''
       \<and> (if Query_Get r ''lang'' = []
          then (case Request_Cookie r ''lang'' of Inr v \<Rightarrow> v | Inl err \<Rightarrow> Query_Get r ''lang'')
          else Query_Get r ''lang'') \<noteq> ''th''
    then ''th''
    else (if Query_Get r ''lang'' = []
          then (case Request_Cookie r ''lang'' of Inr v \<Rightarrow> v | Inl err \<Rightarrow> Query_Get r ''lang'')
          else Query_Get r ''lang'')) = specLocale r"
  by (auto simp: specLocale_def selectedLang_def Query_Get_def Request_Cookie_def Let_def
      split: list.splits option.splits)

lemma SetCookies_renderPage [simp]: "SetCookies (renderPage env w title content) = SetCookies w"
  by (simp add: renderPage_def Let_def Header_Set_def Write_def WriteHeader_def
      split: prod.splits option.splits)

lemma ReplaceAll_hyphen:
  "ReplaceAll s ''-'' '' '' = map (\<lambda>c. if c = CHR ''-'' then CHR '' '' else c) s"
  by (induction s) (auto simp: HasPrefix_def)

section \<open>The model on the sample inputs\<close>

lemma parse_samples:
  "time_Parse ''2026-01-15'' = Inr (DateUTC 2026 1 15)"
  "time_Parse ''2026-01-20'' = Inr (DateUTC 2026 1 20)"
  "time_Parse ''0000-06-15'' = Inr (DateUTC 0 6 15)"
  by (simp_all add: time_Parse_def isDigit_def atoi_def digitVal_def skipDash_def getnum2_def
      daysIn_def isLeap_def)

lemma format_samples:
  "Format (DateUTC 2026 1 15) = ''Jan 15, 2026''"
  "Format (DateUTC 2026 1 20) = ''Jan 20, 2026''"
  "Format (DateUTC 0 6 15) = ''Jun 15, 0000''"
proof -
  have pad: "replicate 3 c = [c, c, c]" for c :: char by (simp add: numeral_3_eq_3)
  show "Format (DateUTC 2026 1 15) = ''Jan 15, 2026''"
    and "Format (DateUTC 2026 1 20) = ''Jan 20, 2026''"
    and "Format (DateUTC 0 6 15) = ''Jun 15, 0000''"
    by (simp_all add: Format_def DateUTC_def shortMonth_def appendInt_def decimal.simps pad)
qed

lemma frontmatter_samples:
  "fst (ParseFrontmatter sampleYaml
         ''---\<newline>title: Test Post\<newline>date: 2026-01-15\<newline>---\<newline>\<newline># Hi'')
     = \<lparr>fm_Title = ''Test Post'', fm_Date = ''2026-01-15''\<rparr>"
  "fst (ParseFrontmatter sampleYaml
         ''---\<newline>title: Getting Started with Go\<newline>date: 2026-01-20\<newline>---\<newline>\<newline>## Why Go?'')
     = \<lparr>fm_Title = ''Getting Started with Go'', fm_Date = ''2026-01-20''\<rparr>"
  "fst (ParseFrontmatter sampleYaml ''---\<newline>date: 0000-06-15\<newline>---\<newline>Long ago.'')
     = \<lparr>fm_Title = [], fm_Date = ''0000-06-15''\<rparr>"
  "fst (ParseFrontmatter sampleYaml ''No date.'') = \<lparr>fm_Title = [], fm_Date = []\<rparr>"
  "fst (ParseFrontmatter sampleYaml ''---\<newline>date: 2026-01-15\<newline>---\<newline>Notes.'')
     = \<lparr>fm_Title = [], fm_Date = ''2026-01-15''\<rparr>"
  by code_simp+

lemma sampleEnv_simps:
  "yaml_Unmarshal sampleEnv = sampleYaml"
  "cases_Title sampleEnv = titleWords True"
  "sort_Slice sampleEnv = insertionSort_func"
  "tmpl_Execute sampleEnv = sampleTemplate"
  "goldmark_Convert sampleEnv = (\<lambda>md. Inr (''<p>'' @ md @ ''</p>\<newline>''))"
  by (simp_all add: sampleEnv_def sort_Slice_def fun_eq_iff)

lemmas entry_eval =
  indexEntry_def Let_def sampleEnv_simps HasSuffix_def TrimSuffix_def HasPrefix_def
  toTitleCase_def frontmatter_samples parse_samples format_samples
  upperAscii_def lowerAscii_def

lemma entry_testPost:
  "indexEntry sampleEnv ''en'' testPostFile
     = Some \<lparr>Slug = ''test-post'', Title = ''Test Post'', Date = DateUTC 2026 1 15,
             DateStr = ''Jan 15, 2026''\<rparr>"
  by (simp add: entry_eval testPostFile_def del: One_nat_def)

lemma entry_gettingStarted:
  "indexEntry sampleEnv ''en'' gettingStartedFile
     = Some \<lparr>Slug = ''en-getting-started'', Title = ''Getting Started with Go'',
             Date = DateUTC 2026 1 20, DateStr = ''Jan 20, 2026''\<rparr>"
  by (simp add: entry_eval gettingStartedFile_def del: One_nat_def)

lemma entry_ancient:
  "indexEntry sampleEnv ''en'' ancientFile
     = Some \<lparr>Slug = ''ancient'', Title = ''Ancient'', Date = DateUTC 0 6 15,
             DateStr = ''Jun 15, 0000''\<rparr>"
  by (simp add: entry_eval ancientFile_def del: One_nat_def)

lemma entry_undated:
  "indexEntry sampleEnv ''en'' undatedFile
     = Some \<lparr>Slug = ''undated'', Title = ''Undated'', Date = zeroTime, DateStr = []\<rparr>"
  by (simp add: entry_eval undatedFile_def del: One_nat_def)

lemma entry_unreadable: "indexEntry sampleEnv lang unreadableFile = None"
  by (simp add: indexEntry_def Let_def unreadableFile_def)

lemma crowdedSite_simps:
  "yaml_Unmarshal crowdedSite = yaml_Unmarshal sampleEnv"
  "cases_Title crowdedSite = cases_Title sampleEnv"
  "sort_long crowdedSite = pdqsortSample"
  by (simp_all add: crowdedSite_def)

lemma indexEntry_crowdedSite: "indexEntry crowdedSite = indexEntry sampleEnv"
  unfolding fun_eq_iff indexEntry_def toTitleCase_def crowdedSite_simps by simp

lemma entry_sameDay:
  assumes "\<not> HasPrefix stem ''th-''" and "\<not> HasPrefix stem ''en-''"
    and "ReplaceAll stem ''-'' '' '' = stem"
  shows "indexEntry sampleEnv lang (sameDayFile stem) = Some (sameDayPost stem)"
  using assms
  by (simp add: indexEntry_def Let_def sampleEnv_simps HasSuffix_append TrimSuffix_append
      toTitleCase_def frontmatter_samples parse_samples format_samples sameDayFile_def
      sameDayPost_def del: One_nat_def)

lemma crowded_collected:
  "List.map_filter (indexEntry sampleEnv ''en'') crowdedFiles
     = map sameDayPost
         [''a00'', ''a01'', ''a02'', ''a03'', ''a04'', ''a05'',
          ''a06'', ''a07'', ''a08'', ''a09'', ''a10'', ''a11'']
       @ [\<lparr>Slug = ''en-getting-started'', Title = ''Getting Started with Go'',
            Date = DateUTC 2026 1 20, DateStr = ''Jan 20, 2026''\<rparr>]"
  by (simp add: crowdedFiles_def entry_sameDay entry_gettingStarted HasPrefix_def
      ReplaceAll_hyphen)

lemma upt_1_13: "[1 ..< 13] = [1, 2, 3, 4, 5, 6, 7, 8, 9, 10, 11, 12::nat]"
  by (simp add: upt_conv_Cons)

lemma upt_2_12: "[2 ..< 12] = [2, 3, 4, 5, 6, 7, 8, 9, 10, 11::nat]"
  by (simp add: upt_conv_Cons)

lemma list_update_Cons_numeral:
  "(x # xs)[numeral k := y] = x # xs[pred_numeral k := y]"
  by (simp add: numeral_eq_Suc)

text \<open>
  The rounds on thirteen elements of which the last is less than the twelve others, which
  compare equal: the median of the elements 3, 6 and 9 is element 6; the slice is not in
  order; the partition swaps the elements 0 and 6, then 1 and 12, then 0 and 1; the two
  sides, of one and of eleven elements, are in order.
\<close>

lemma pdqsort_thirteen:
  assumes same: "\<And>x y. x \<in> set [p0, p1, p2, p3, p4, p5, p6, p7, p8, p9, p10, p11] \<Longrightarrow>
                  y \<in> set [p0, p1, p2, p3, p4, p5, p6, p7, p8, p9, p10, p11] \<Longrightarrow> \<not> lt x y"
    and newer: "\<And>x. x \<in> set [p0, p1, p2, p3, p4, p5, p6, p7, p8, p9, p10, p11] \<Longrightarrow> lt n x"
    and older: "\<And>x. x \<in> set [p0, p1, p2, p3, p4, p5, p6, p7, p8, p9, p10, p11] \<Longrightarrow> \<not> lt x n"
  shows "pdqsort_func (Suc (Suc rounds)) lt [p0, p1, p2, p3, p4, p5, p6, p7, p8, p9, p10, p11, n]
           0 13 4 True True
         = Some [n, p6, p2, p3, p4, p5, p0, p7, p8, p9, p10, p11, p1]"
proof -
  let ?xs = "[p0, p1, p2, p3, p4, p5, p6, p7, p8, p9, p10, p11, n]"
  let ?da = "[p6, p1, p2, p3, p4, p5, p0, p7, p8, p9, p10, p11, n]"
  let ?db = "[p6, n, p2, p3, p4, p5, p0, p7, p8, p9, p10, p11, p1]"
  let ?res = "[n, p6, p2, p3, p4, p5, p0, p7, p8, p9, p10, p11, p1]"
  have pivot: "choosePivot_func lt ?xs 0 13 = Some (6, increasingHint)"
    using same by (simp add: choosePivot_func_def median_func_def order2_func_def Let_def)
  have partial: "partialInsertionSort_func lt ?xs 0 13 = Some False"
    using newer by (simp add: partialInsertionSort_func_def upt_1_13 del: One_nat_def)
  have da: "Swap ?xs 0 6 = ?da"
    by (simp add: Swap_def list_update_Cons_numeral)
  have i: "scanUp (\<lambda>k. lt (?da ! k) (?da ! 0)) 1 12 = 1"
    using same by (simp add: scanUp_def upt_1_13 del: One_nat_def)
  have j: "scanDown (\<lambda>k. \<not> lt (?da ! k) (?da ! 0)) 1 12 = 12"
    using newer by (simp add: scanDown_def upt_1_13 del: One_nat_def)
  have db: "Swap ?da 1 12 = ?db"
    by (simp add: Swap_def list_update_Cons_numeral)
  have i2: "scanUp (\<lambda>k. lt (?db ! k) (?db ! 0)) 2 11 = 2"
    using same by (simp add: scanUp_def upt_2_12 del: One_nat_def)
  have j2: "scanDown (\<lambda>k. \<not> lt (?db ! k) (?db ! 0)) 2 11 = 1"
    using same by (simp add: scanDown_def upt_2_12 del: One_nat_def)
  have loop: "partitionLoop lt ?db 0 2 11 = (?db, 1)"
    using i2 j2 by (simp add: partitionLoop.simps [of lt ?db 0 2 11] Let_def del: One_nat_def)
  have last: "Swap ?db 1 0 = ?res"
    by (simp add: Swap_def)
  have partition: "partition_func lt ?xs 0 13 6 = (?res, 1, False)"
    using i j loop last by (simp add: partition_func_def Let_def da db del: One_nat_def)
  have left: "insertionSortRange lt ?res 0 1 = ?res"
    by (simp add: insertionSortRange_def insertionSort_func_def)
  have right: "insertionSortRange lt ?res 2 13 = ?res"
    using same by (simp add: insertionSortRange_def insertionSort_func_def)
  show ?thesis
    using left right by (simp add: pivot partial partition del: One_nat_def)
qed

lemma bits_Len_13: "bits_Len 13 = 4"
  by (simp add: bits_Len.simps [of 13] bits_Len.simps [of 6] bits_Len.simps [of 3]
      bits_Len.simps [of 1] bits_Len.simps [of 0] del: One_nat_def)

lemma index_crowded:
  "pdqsort_func 13 newerFirst (List.map_filter (indexEntry crowdedSite ''en'') crowdedFiles)
      0 13 (bits_Len 13) True True
     = Some (postIndex crowdedSite ''en'' crowdedFiles)"
  "postIndex crowdedSite ''en'' crowdedFiles
     = \<lparr>Slug = ''en-getting-started'', Title = ''Getting Started with Go'',
          Date = DateUTC 2026 1 20, DateStr = ''Jan 20, 2026''\<rparr>
       # map sameDayPost
           [''a06'', ''a02'', ''a03'', ''a04'', ''a05'', ''a00'',
            ''a07'', ''a08'', ''a09'', ''a10'', ''a11'', ''a01'']"
proof -
  let ?n = "\<lparr>Slug = ''en-getting-started'', Title = ''Getting Started with Go'',
              Date = DateUTC 2026 1 20, DateStr = ''Jan 20, 2026''\<rparr>"
  let ?collected = "List.map_filter (indexEntry crowdedSite ''en'') crowdedFiles"
  have later: "After (DateUTC 2026 1 20) (DateUTC 2026 1 15)"
    by (simp add: After_def DateUTC_def daysSinceZero_def daysBefore_def isLeap_def)
  have same: "\<not> newerFirst (sameDayPost x) (sameDayPost y)" for x y
    by (simp add: newerFirst_def sameDayPost_def After_def)
  have newer: "newerFirst ?n (sameDayPost x)" for x
    using later by (simp add: newerFirst_def sameDayPost_def del: One_nat_def)
  have older: "\<not> newerFirst (sameDayPost x) ?n" for x
    using later by (simp add: newerFirst_def sameDayPost_def After_def del: One_nat_def)
  have collected: "?collected
      = [sameDayPost ''a00'', sameDayPost ''a01'', sameDayPost ''a02'', sameDayPost ''a03'',
         sameDayPost ''a04'', sameDayPost ''a05'', sameDayPost ''a06'', sameDayPost ''a07'',
         sameDayPost ''a08'', sameDayPost ''a09'', sameDayPost ''a10'', sameDayPost ''a11'', ?n]"
    by (simp add: indexEntry_crowdedSite crowded_collected)
  have run: "pdqsort_func (Suc (Suc 11)) newerFirst ?collected 0 13 4 True True
      = Some [?n, sameDayPost ''a06'', sameDayPost ''a02'', sameDayPost ''a03'',
              sameDayPost ''a04'', sameDayPost ''a05'', sameDayPost ''a00'', sameDayPost ''a07'',
              sameDayPost ''a08'', sameDayPost ''a09'', sameDayPost ''a10'', sameDayPost ''a11'',
              sameDayPost ''a01'']"
    unfolding collected
    by (rule pdqsort_thirteen) (auto simp: same newer older simp del: One_nat_def)
  have thirteen: "Suc (Suc 11) = 13" "length ?collected = 13"
    by (simp_all add: collected)
  show "postIndex crowdedSite ''en'' crowdedFiles
     = ?n # map sameDayPost
           [''a06'', ''a02'', ''a03'', ''a04'', ''a05'', ''a00'',
            ''a07'', ''a08'', ''a09'', ''a10'', ''a11'', ''a01'']"
    using run
    by (simp add: postIndex_def sort_Slice_def thirteen crowdedSite_simps pdqsortSample_def
        bits_Len_13)
  then show "pdqsort_func 13 newerFirst ?collected 0 13 (bits_Len 13) True True
     = Some (postIndex crowdedSite ''en'' crowdedFiles)"
    using run by (simp add: thirteen bits_Len_13)
qed

lemma index_ancient_undated:
  "postIndex sampleEnv ''en'' [ancientFile, undatedFile]
     = [\<lparr>Slug = ''undated'', Title = ''Undated'', Date = zeroTime, DateStr = []\<rparr>,
        \<lparr>Slug = ''ancient'', Title = ''Ancient'', Date = DateUTC 0 6 15,
          DateStr = ''Jun 15, 0000''\<rparr>]"
proof -
  have "After zeroTime (DateUTC 0 6 15)"
    by (simp add: After_def zeroTime_def DateUTC_def daysSinceZero_def daysBefore_def isLeap_def)
  then show ?thesis
    by (simp add: postIndex_def sampleEnv_simps insertionSort_func_def newerFirst_def
        entry_ancient entry_undated)
qed

lemma testPost_parsed:
  "ParseFrontmatter sampleYaml
     ''---\<newline>title: Test Post\<newline>date: 2026-01-15\<newline>---\<newline>\<newline># Hi''
   = (\<lparr>fm_Title = ''Test Post'', fm_Date = ''2026-01-15''\<rparr>, ''# Hi'')"
  by code_simp

section \<open>The slug validator and the post page's rejections\<close>

text \<open>
  Claim C1. A request to \<open>GET /posts/{slug}\<close> whose slug fails \<open>IsValidSlug\<close> is answered
  with status 400 and the reader is not called (the list of reader calls is empty); a
  request whose slug is valid and for which the reader returns an error is answered with
  status 404.
\<close>

theorem PostHandler_rejects:
  "(\<not> IsValidSlug (PathValue r ''slug'') \<longrightarrow>
      status (fst (PostHandler env sl r)) = 400 \<and> snd (PostHandler env sl r) = [])
   \<and> (IsValidSlug (PathValue r ''slug'') \<and> (\<exists>e. sl (PathValue r ''slug'') = Inl e) \<longrightarrow>
      status (fst (PostHandler env sl r)) = 404)"
  by (auto simp: PostHandler_def Let_def)

theorem PostHandler_rejects_witness:
  "status (fst (PostHandler sampleEnv (MockSlugReader []) (slugRequest ''../etc/passwd''))) = 400
   \<and> snd (PostHandler sampleEnv (MockSlugReader []) (slugRequest ''../etc/passwd'')) = []
   \<and> status (fst (PostHandler sampleEnv (MockSlugReader []) (slugRequest ''nonexistent''))) = 404"
proof -
  have bad: "\<not> IsValidSlug (PathValue (slugRequest ''../etc/passwd'') ''slug'')"
    by (simp add: PathValue_def slugRequest_def IsValidSlug_chars isAsciiLetter_def
        isAsciiDigit_def)
  have good: "IsValidSlug (PathValue (slugRequest ''nonexistent'') ''slug'')"
    by (simp add: PathValue_def slugRequest_def IsValidSlug_chars isAsciiLetter_def
        isAsciiDigit_def)
  have missing: "\<exists>e. MockSlugReader [] (PathValue (slugRequest ''nonexistent'') ''slug'') = Inl e"
    by (simp add: MockSlugReader_def)
  show ?thesis
    using PostHandler_rejects [of "slugRequest ''../etc/passwd''" sampleEnv "MockSlugReader []"]
      PostHandler_rejects [of "slugRequest ''nonexistent''" sampleEnv "MockSlugReader []"]
      bad good missing
    by blast
qed

text \<open>
  Claim C2. \<open>IsValidSlug s\<close> holds exactly when \<open>s\<close> is not empty and each of its
  characters is an ASCII letter, an ASCII digit, a hyphen or an underscore. So
  \<open>"../etc/passwd"\<close> and the empty string are rejected and \<open>"valid-slug_123"\<close> is accepted.
\<close>

theorem IsValidSlug_iff:
  "(IsValidSlug s \<longleftrightarrow>
      s \<noteq> [] \<and> (\<forall>c \<in> set s. isAsciiLetter c \<or> isAsciiDigit c \<or> c = CHR ''-'' \<or> c = CHR ''_''))
   \<and> \<not> IsValidSlug ''../etc/passwd''
   \<and> IsValidSlug ''valid-slug_123''
   \<and> \<not> IsValidSlug ''''"
  by (simp add: IsValidSlug_chars isAsciiLetter_def isAsciiDigit_def)

theorem IsValidSlug_iff_witness:
  "IsValidSlug ''th-getting-started'' \<and> \<not> IsValidSlug ''slug with spaces''"
  using IsValidSlug_iff [of "''th-getting-started''"] IsValidSlug_iff [of "''slug with spaces''"]
  by (simp add: isAsciiLetter_def isAsciiDigit_def)

section \<open>The frontmatter parser\<close>

text \<open>
  Claim C3. On an input that does not begin with the three characters \<open>---\<close>,
  \<open>ParseFrontmatter\<close> returns the empty frontmatter and the input unchanged.
\<close>

theorem ParseFrontmatter_without_delimiter:
  assumes "take 3 content \<noteq> ''---''"
  shows "ParseFrontmatter yaml content = (\<lparr>fm_Title = [], fm_Date = []\<rparr>, content)"
  using assms by (simp add: ParseFrontmatter_def HasPrefix_take3)

theorem ParseFrontmatter_without_delimiter_witness:
  "ParseFrontmatter sampleYaml ''Just content without frontmatter.''
     = (\<lparr>fm_Title = [], fm_Date = []\<rparr>, ''Just content without frontmatter.'')"
proof -
  have "take 3 ''Just content without frontmatter.'' \<noteq> ''---''" by simp
  then show ?thesis by (rule ParseFrontmatter_without_delimiter)
qed

text \<open>
  Claim C4. On an input that begins with \<open>---\<close> and has no further \<open>---\<close> after these
  three characters, \<open>ParseFrontmatter\<close> returns the empty frontmatter and the whole input,
  leading delimiter included.
\<close>

theorem ParseFrontmatter_unclosed:
  assumes "take 3 content = ''---''"
    and "\<not> (\<exists>u v. drop 3 content = u @ ''---'' @ v)"
  shows "ParseFrontmatter yaml content = (\<lparr>fm_Title = [], fm_Date = []\<rparr>, content)"
proof -
  have "Index (drop 3 content) ''---'' = None"
    using assms(2) by (simp add: Index_None_iff)
  then show ?thesis
    by (simp add: ParseFrontmatter_def SplitN_2 Let_def)
qed

theorem ParseFrontmatter_unclosed_witness:
  "ParseFrontmatter sampleYaml ''---\<newline>title: Incomplete\<newline>This should not parse''
     = (\<lparr>fm_Title = [], fm_Date = []\<rparr>,
        ''---\<newline>title: Incomplete\<newline>This should not parse'')"
proof -
  have a: "take 3 ''---\<newline>title: Incomplete\<newline>This should not parse'' = ''---''"
    by simp
  have "Index (drop 3 ''---\<newline>title: Incomplete\<newline>This should not parse'') ''---'' = None"
    by code_simp
  then have b: "\<not> (\<exists>u v. drop 3 ''---\<newline>title: Incomplete\<newline>This should not parse''
                      = u @ ''---'' @ v)"
    using no_delimiter_iff by blast
  show ?thesis by (rule ParseFrontmatter_unclosed [OF a b])
qed

text \<open>
  Claim C5, as amended. On an input made of \<open>---\<close>, a metadata block, the first following
  \<open>---\<close> and a rest, \<open>ParseFrontmatter\<close> returns the frontmatter exactly as the decoder left
  it, starting from the empty one, and the trimmed rest; whether the decoder reported an
  error plays no role, and no error reaches the caller. The frontmatter is therefore empty
  after a failure only if the decoder assigned nothing before failing.
\<close>

theorem ParseFrontmatter_decoded:
  assumes "\<not> (\<exists>u v. block @ ''--'' = u @ ''---'' @ v)"
  shows "ParseFrontmatter yaml (''---'' @ block @ ''---'' @ rest)
           = (fst (yaml block \<lparr>fm_Title = [], fm_Date = []\<rparr>), TrimSpace rest)"
proof -
  have "Index (block @ ''---'' @ rest) ''---'' = Some (length block)"
    using assms Index_first [of "''---''" block rest] by simp
  then show ?thesis
    by (simp add: ParseFrontmatter_def SplitN_2 Let_def HasPrefix_def)
qed

theorem ParseFrontmatter_decoded_witness:
  "ParseFrontmatter sampleYaml
     (''---'' @ ''\<newline>title: Test Post\<newline>date: 2026-01-15\<newline>'' @ ''---''
        @ ''\<newline>\<newline>This is the content.'')
   = (\<lparr>fm_Title = ''Test Post'', fm_Date = ''2026-01-15''\<rparr>, ''This is the content.'')"
proof -
  have "Index (''\<newline>title: Test Post\<newline>date: 2026-01-15\<newline>'' @ ''--'') ''---'' = None"
    by code_simp
  then have b: "\<not> (\<exists>u v. ''\<newline>title: Test Post\<newline>date: 2026-01-15\<newline>'' @ ''--''
                      = u @ ''---'' @ v)"
    using no_delimiter_iff by blast
  have t: "TrimSpace ''\<newline>\<newline>This is the content.'' = ''This is the content.''"
    by code_simp
  have y: "fst (sampleYaml ''\<newline>title: Test Post\<newline>date: 2026-01-15\<newline>''
                  \<lparr>fm_Title = [], fm_Date = []\<rparr>)
           = \<lparr>fm_Title = ''Test Post'', fm_Date = ''2026-01-15''\<rparr>"
    by (simp add: sampleYaml_def)
  show ?thesis
    using ParseFrontmatter_decoded [OF b, of sampleYaml "''\<newline>\<newline>This is the content.''"]
    by (simp only: t y)
qed

text \<open>
  The claim as first stated (an empty frontmatter after every decoding failure) fails on a
  block whose title is a sequence: the decoder reports an error, and the date it decoded
  before is returned.
\<close>

theorem ParseFrontmatter_partial_counterexample:
  "snd (sampleYaml ''\<newline>title: [a, b]\<newline>date: 2026-01-15\<newline>''
          \<lparr>fm_Title = [], fm_Date = []\<rparr>) \<noteq> None
   \<and> fst (ParseFrontmatter sampleYaml
            ''---\<newline>title: [a, b]\<newline>date: 2026-01-15\<newline>---\<newline>body'')
       = \<lparr>fm_Title = [], fm_Date = ''2026-01-15''\<rparr>"
  by code_simp

section \<open>The post index\<close>

text \<open>
  Claim C6, as amended. The post index is a rearrangement of the posts the loop collected,
  in descending order of date: no post is listed after a post with an earlier date. (Up to
  twelve posts are sorted by insertion; of the sort of a longer slice the theorem asks
  that it keeps the promise of \<open>sort.Slice\<close>.) A post with no resolved date (its date
  string is empty) carries the zero time, January 1 of year 1, so every post listed after
  it is dated no later than the zero time. A post dated 2026-01-20 is listed before a post
  dated 2026-01-15; an index of just these two is the former, then the latter. In an index
  of at most twelve posts the order among posts with equal dates is stable: the posts of
  one date are listed in the order in which the directory lists them.
\<close>

theorem postIndex_descending:
  assumes "sortContract env"
  shows "mset (postIndex env lang files) = mset (List.map_filter (indexEntry env lang) files)
     \<and> sorted_wrt (\<lambda>a b. \<not> After (Date b) (Date a)) (postIndex env lang files)
     \<and> (\<forall>p \<in> set (postIndex env lang files). DateStr p = [] \<longrightarrow> Date p = zeroTime)
     \<and> (\<forall>i j. i < j \<and> j < length (postIndex env lang files)
            \<and> DateStr (postIndex env lang files ! i) = []
          \<longrightarrow> \<not> After (Date (postIndex env lang files ! j)) zeroTime)
     \<and> (\<forall>i j. i < length (postIndex env lang files) \<and> j < length (postIndex env lang files)
            \<and> Date (postIndex env lang files ! i) = DateUTC 2026 1 20
            \<and> Date (postIndex env lang files ! j) = DateUTC 2026 1 15
          \<longrightarrow> i < j)
     \<and> (mset (List.map_filter (indexEntry env lang) files) = {#p, q#}
          \<and> Date p = DateUTC 2026 1 20 \<and> Date q = DateUTC 2026 1 15
          \<longrightarrow> postIndex env lang files = [p, q])
     \<and> (length (List.map_filter (indexEntry env lang) files) \<le> 12 \<longrightarrow>
          (\<forall>d. filter (\<lambda>p. instant (Date p) = d) (postIndex env lang files)
                = filter (\<lambda>p. instant (Date p) = d)
                    (List.map_filter (indexEntry env lang) files)))"
proof (intro conjI allI impI ballI)
  show "mset (postIndex env lang files) = mset (List.map_filter (indexEntry env lang) files)"
    using assms by (rule sortContract_mset)
next
  show "sorted_wrt (\<lambda>a b. \<not> After (Date b) (Date a)) (postIndex env lang files)"
    using assms by (rule sortContract_sorted)
next
  fix p
  assume "p \<in> set (postIndex env lang files)" and "DateStr p = []"
  then show "Date p = zeroTime"
    using postIndex_member [OF assms] indexEntry_SomeD(5) by blast
next
  fix i j
  assume a: "i < j \<and> j < length (postIndex env lang files)
             \<and> DateStr (postIndex env lang files ! i) = []"
  let ?idx = "postIndex env lang files"
  have "?idx ! i \<in> set ?idx" using a by simp
  then obtain f where "indexEntry env lang f = Some (?idx ! i)"
    using postIndex_member [OF assms] by blast
  then have z: "Date (?idx ! i) = zeroTime"
    using a indexEntry_SomeD(5) by blast
  have "\<not> After (Date (?idx ! j)) (Date (?idx ! i))"
    using sortContract_sorted [OF assms, of lang files] a
    by (simp add: sorted_wrt_iff_nth_less)
  with z show "\<not> After (Date (?idx ! j)) zeroTime" by simp
next
  fix i j
  let ?idx = "postIndex env lang files"
  assume a: "i < length ?idx \<and> j < length ?idx
             \<and> Date (?idx ! i) = DateUTC 2026 1 20 \<and> Date (?idx ! j) = DateUTC 2026 1 15"
  have later: "After (DateUTC 2026 1 20) (DateUTC 2026 1 15)"
    by (simp add: After_def DateUTC_def daysSinceZero_def daysBefore_def isLeap_def)
  from a later have newer: "After (Date (?idx ! i)) (Date (?idx ! j))"
    by (simp del: One_nat_def)
  show "i < j"
  proof (rule ccontr)
    assume "\<not> i < j"
    then consider "i = j" | "j < i" by linarith
    then show False
    proof cases
      case 1
      with newer show False by (simp add: After_def)
    next
      case 2
      from a have "i < length ?idx" by blast
      with sortContract_sorted [OF assms, of lang files] 2
      have "\<not> After (Date (?idx ! i)) (Date (?idx ! j))"
        by (rule sorted_wrt_nth_less)
      with newer show False by simp
    qed
  qed
next
  assume a: "mset (List.map_filter (indexEntry env lang) files) = {#p, q#}
             \<and> Date p = DateUTC 2026 1 20 \<and> Date q = DateUTC 2026 1 15"
  have "After (Date p) (Date q)"
    using a by (simp add: After_def DateUTC_def daysSinceZero_def daysBefore_def isLeap_def)
  moreover have "mset (postIndex env lang files) = {#p, q#}"
    using a sortContract_mset [OF assms, of lang files] by simp
  ultimately show "postIndex env lang files = [p, q]"
    using sortContract_sorted [OF assms, of lang files] two_element_order by blast
next
  fix d
  assume "length (List.map_filter (indexEntry env lang) files) \<le> 12"
  then show "filter (\<lambda>p. instant (Date p) = d) (postIndex env lang files)
      = filter (\<lambda>p. instant (Date p) = d) (List.map_filter (indexEntry env lang) files)"
    by (simp add: postIndex_short insertionSort_stable)
qed

theorem postIndex_descending_witness:
  "postIndex sampleEnv ''en'' [testPostFile, gettingStartedFile]
     = [\<lparr>Slug = ''en-getting-started'', Title = ''Getting Started with Go'',
          Date = DateUTC 2026 1 20, DateStr = ''Jan 20, 2026''\<rparr>,
        \<lparr>Slug = ''test-post'', Title = ''Test Post'', Date = DateUTC 2026 1 15,
          DateStr = ''Jan 15, 2026''\<rparr>]
   \<and> Date (postIndex sampleEnv ''en'' [ancientFile, undatedFile] ! 0) = zeroTime
   \<and> \<not> After (Date (postIndex sampleEnv ''en'' [ancientFile, undatedFile] ! 1)) zeroTime
   \<and> length (List.map_filter (indexEntry sampleEnv ''en'')
               [sameDayFile ''a00'', sameDayFile ''a01'', gettingStartedFile]) \<le> 12
   \<and> filter (\<lambda>p. instant (Date p) = instant (DateUTC 2026 1 15))
        (postIndex sampleEnv ''en''
           [sameDayFile ''a00'', sameDayFile ''a01'', gettingStartedFile])
       = [sameDayPost ''a00'', sameDayPost ''a01'']"
proof -
  let ?p = "\<lparr>Slug = ''en-getting-started'', Title = ''Getting Started with Go'',
              Date = DateUTC 2026 1 20, DateStr = ''Jan 20, 2026''\<rparr>"
  let ?q = "\<lparr>Slug = ''test-post'', Title = ''Test Post'', Date = DateUTC 2026 1 15,
              DateStr = ''Jan 15, 2026''\<rparr>"
  let ?old = "postIndex sampleEnv ''en'' [ancientFile, undatedFile]"
  have "List.map_filter (indexEntry sampleEnv ''en'') [testPostFile, gettingStartedFile] = [?q, ?p]"
    by (simp add: entry_testPost entry_gettingStarted)
  then have two: "mset (List.map_filter (indexEntry sampleEnv ''en'') [testPostFile, gettingStartedFile])
               = {#?p, ?q#}
             \<and> Date ?p = DateUTC 2026 1 20 \<and> Date ?q = DateUTC 2026 1 15"
    by simp
  have first: "postIndex sampleEnv ''en'' [testPostFile, gettingStartedFile] = [?p, ?q]"
    using two postIndex_descending [OF sortContract_sampleEnv, of "''en''"
        "[testPostFile, gettingStartedFile]" ?p ?q]
    by blast
  have member: "?old ! 0 \<in> set ?old" and undated: "DateStr (?old ! 0) = []"
    and pos: "(0::nat) < 1 \<and> 1 < length ?old \<and> DateStr (?old ! 0) = []"
    by (simp_all add: index_ancient_undated)
  have second: "Date (?old ! 0) = zeroTime"
    using member undated
      postIndex_descending [OF sortContract_sampleEnv, of "''en''" "[ancientFile, undatedFile]"]
    by blast
  have third: "\<not> After (Date (?old ! 1)) zeroTime"
    using pos
      postIndex_descending [OF sortContract_sampleEnv, of "''en''" "[ancientFile, undatedFile]"]
    by blast
  let ?three = "[sameDayFile ''a00'', sameDayFile ''a01'', gettingStartedFile]"
  have collected: "List.map_filter (indexEntry sampleEnv ''en'') ?three
      = [sameDayPost ''a00'', sameDayPost ''a01'', ?p]"
    by (simp add: entry_sameDay entry_gettingStarted HasPrefix_def ReplaceAll_hyphen)
  then have short: "length (List.map_filter (indexEntry sampleEnv ''en'') ?three) \<le> 12"
    by simp
  have "instant (DateUTC 2026 1 20) \<noteq> instant (DateUTC 2026 1 15)"
    by (simp add: DateUTC_def daysSinceZero_def daysBefore_def isLeap_def)
  then have kept: "filter (\<lambda>p. instant (Date p) = instant (DateUTC 2026 1 15))
               [sameDayPost ''a00'', sameDayPost ''a01'', ?p]
             = [sameDayPost ''a00'', sameDayPost ''a01'']"
    by (simp add: sameDayPost_def del: One_nat_def)
  have "filter (\<lambda>p. instant (Date p) = instant (DateUTC 2026 1 15))
          (postIndex sampleEnv ''en'' ?three)
        = filter (\<lambda>p. instant (Date p) = instant (DateUTC 2026 1 15))
            (List.map_filter (indexEntry sampleEnv ''en'') ?three)"
    using short postIndex_descending [OF sortContract_sampleEnv, of "''en''" ?three]
    by blast
  then have fourth: "filter (\<lambda>p. instant (Date p) = instant (DateUTC 2026 1 15))
                  (postIndex sampleEnv ''en'' ?three)
                = [sameDayPost ''a00'', sameDayPost ''a01'']"
    by (simp only: collected kept)
  from first second third short fourth show ?thesis by blast
qed

text \<open>
  The claim as first stated fails in two of its parts. A post with no resolved date does
  not sort as least recent when another post is dated before the zero time: a post whose
  frontmatter date is 0000-06-15 is listed after the post with no date. And the order
  among posts with equal dates is not stable in an index of more than twelve posts: of
  twelve posts dated 2026-01-15 that the directory lists before a post dated 2026-01-20,
  the post \<open>a06\<close> is listed before the post \<open>a00\<close>, and the post \<open>a01\<close> last. (The last
  part of the statement: this index is the result of the rounds of \<open>pdqsort_func\<close>.)
\<close>

theorem postIndex_counterexample:
  "map Slug (postIndex sampleEnv ''en'' [ancientFile, undatedFile]) = [''undated'', ''ancient'']
   \<and> map DateStr (postIndex sampleEnv ''en'' [ancientFile, undatedFile]) = [[], ''Jun 15, 0000'']
   \<and> map Name crowdedFiles
       = [''a00.md'', ''a01.md'', ''a02.md'', ''a03.md'', ''a04.md'', ''a05.md'', ''a06.md'',
          ''a07.md'', ''a08.md'', ''a09.md'', ''a10.md'', ''a11.md'', ''en-getting-started.md'']
   \<and> map Slug (postIndex crowdedSite ''en'' crowdedFiles)
       = [''en-getting-started'', ''a06'', ''a02'', ''a03'', ''a04'', ''a05'', ''a00'',
          ''a07'', ''a08'', ''a09'', ''a10'', ''a11'', ''a01'']
   \<and> map DateStr (postIndex crowdedSite ''en'' crowdedFiles)
       = ''Jan 20, 2026'' # replicate 12 ''Jan 15, 2026''
   \<and> pdqsort_func 13 newerFirst (List.map_filter (indexEntry crowdedSite ''en'') crowdedFiles)
         0 13 (bits_Len 13) True True
       = Some (postIndex crowdedSite ''en'' crowdedFiles)"
proof -
  have "replicate 12 ''Jan 15, 2026''
      = [''Jan 15, 2026'', ''Jan 15, 2026'', ''Jan 15, 2026'', ''Jan 15, 2026'',
         ''Jan 15, 2026'', ''Jan 15, 2026'', ''Jan 15, 2026'', ''Jan 15, 2026'',
         ''Jan 15, 2026'', ''Jan 15, 2026'', ''Jan 15, 2026'', ''Jan 15, 2026'']"
    by (simp add: numeral_eq_Suc)
  moreover have "map Name crowdedFiles
       = [''a00.md'', ''a01.md'', ''a02.md'', ''a03.md'', ''a04.md'', ''a05.md'', ''a06.md'',
          ''a07.md'', ''a08.md'', ''a09.md'', ''a10.md'', ''a11.md'', ''en-getting-started.md'']"
    by (simp add: crowdedFiles_def sameDayFile_def gettingStartedFile_def)
  ultimately show ?thesis
    by (simp add: index_ancient_undated index_crowded sameDayPost_def)
qed

text \<open>
  Claim C7, as amended. For a file of the directory whose name is a stem followed by
  \<open>.md\<close> and whose content can be read, and for \<open>lang\<close> either \<open>en\<close> or \<open>th\<close>: if the
  stem begins with \<open>th-\<close> or \<open>en-\<close>, the index lists the stem exactly when that prefix is
  \<open>lang\<close> followed by a hyphen; a stem with neither prefix is listed under both languages.
\<close>

theorem language_filter:
  assumes "sortContract env" and "lang = ''en'' \<or> lang = ''th''"
    and "f \<in> set files" and "Name f = stem @ ''.md''" and "Contents f = Inr c"
  shows "(take 3 stem = ''th-'' \<or> take 3 stem = ''en-'' \<longrightarrow>
            (stem \<in> Slug ` set (postIndex env lang files) \<longleftrightarrow> take 3 stem = lang @ ''-''))
       \<and> (take 3 stem \<noteq> ''th-'' \<and> take 3 stem \<noteq> ''en-'' \<longrightarrow>
            stem \<in> Slug ` set (postIndex env lang files))"
proof -
  have suffix: "HasSuffix (Name f) ''.md''" and stem: "TrimSuffix (Name f) ''.md'' = stem"
    using assms(4) by (simp_all add: HasSuffix_append TrimSuffix_append)
  have listed: "stem \<in> Slug ` set (postIndex env lang files) \<longleftrightarrow> passesLanguage lang stem"
  proof
    assume "stem \<in> Slug ` set (postIndex env lang files)"
    then obtain p where "p \<in> set (postIndex env lang files)" and "Slug p = stem" by auto
    then obtain g where "indexEntry env lang g = Some p"
      using postIndex_member [OF assms(1)] by blast
    then have "passesLanguage lang (Slug p)" by (rule indexEntry_SomeD(4))
    then show "passesLanguage lang stem" using \<open>Slug p = stem\<close> by simp
  next
    assume "passesLanguage lang stem"
    then obtain p where "indexEntry env lang f = Some p" and "Slug p = stem"
      using indexEntry_SomeI [OF suffix assms(5), of lang env] stem by auto
    then have "p \<in> set (postIndex env lang files)"
      using assms(1,3) by (auto simp: sortContract_set set_map_filter_iff)
    then show "stem \<in> Slug ` set (postIndex env lang files)"
      using \<open>Slug p = stem\<close> by force
  qed
  have "length (lang @ ''-'') = 3" using assms(2) by auto
  then have "passesLanguage lang stem \<longleftrightarrow>
             \<not> ((take 3 stem = ''th-'' \<or> take 3 stem = ''en-'') \<and> take 3 stem \<noteq> lang @ ''-'')"
    by (simp add: passesLanguage_def HasPrefix_take)
  with listed show ?thesis using assms(2) by auto
qed

theorem language_filter_witness:
  "''en-getting-started'' \<notin> Slug ` set (postIndex sampleEnv ''th'' [gettingStartedFile, announcementFile])
   \<and> ''en-getting-started'' \<in> Slug ` set (postIndex sampleEnv ''en'' [gettingStartedFile, announcementFile])
   \<and> ''announcement'' \<in> Slug ` set (postIndex sampleEnv ''th'' [gettingStartedFile, announcementFile])
   \<and> ''announcement'' \<in> Slug ` set (postIndex sampleEnv ''en'' [gettingStartedFile, announcementFile])"
proof -
  let ?files = "[gettingStartedFile, announcementFile]"
  have g: "gettingStartedFile \<in> set ?files" and a: "announcementFile \<in> set ?files" by simp_all
  have gn: "Name gettingStartedFile = ''en-getting-started'' @ ''.md''"
    and an: "Name announcementFile = ''announcement'' @ ''.md''"
    by (simp_all add: gettingStartedFile_def announcementFile_def)
  obtain gc ac where gc: "Contents gettingStartedFile = Inr gc"
    and ac: "Contents announcementFile = Inr ac"
    by (simp add: gettingStartedFile_def announcementFile_def)
  have th: "''th'' = ''en'' \<or> ''th'' = ''th''" and en: "''en'' = ''en'' \<or> ''en'' = ''th''"
    by simp_all
  show ?thesis
    using language_filter [OF sortContract_sampleEnv th g gn gc]
      language_filter [OF sortContract_sampleEnv en g gn gc]
      language_filter [OF sortContract_sampleEnv th a an ac]
      language_filter [OF sortContract_sampleEnv en a an ac]
    by simp
qed

text \<open>
  The claim as first stated (every file with the extension) fails for a file that cannot
  be read: the loop skips it, so its stem is listed under neither language.
\<close>

theorem language_filter_counterexample:
  "Name unreadableFile = ''announcement'' @ ''.md''
   \<and> ''announcement'' \<notin> Slug ` set (postIndex sampleEnv ''en'' [unreadableFile])
   \<and> ''announcement'' \<notin> Slug ` set (postIndex sampleEnv ''th'' [unreadableFile])"
proof -
  have "Name unreadableFile = ''announcement'' @ ''.md''"
    by (simp add: unreadableFile_def)
  moreover have "postIndex sampleEnv ''en'' [unreadableFile] = []"
    and "postIndex sampleEnv ''th'' [unreadableFile] = []"
    by (simp_all add: postIndex_def entry_unreadable sampleEnv_simps insertionSort_func_def)
  ultimately show ?thesis by simp
qed

section \<open>The locale\<close>

text \<open>
  Claim C8. The home page and the contact page behave as the locale of the specification
  prescribes: \<open>HomeHandler\<close> stores it in the \<open>lang\<close> cookie and uses it for the index
  and the texts, \<open>ContactHandler\<close> chooses its markup by it. The locale is \<open>en\<close> or \<open>th\<close>;
  it is \<open>en\<close> exactly when the selected source (the query parameter if not empty, else the
  cookie) holds \<open>en\<close>, and \<open>th\<close> in every other case.
\<close>

theorem locale_resolution:
  "HomeHandler env r =
     (let w1 = SetCookie
                 \<lparr>cookie_Name = ''lang'', cookie_Value = specLocale r, cookie_Path = ''/'',
                  cookie_MaxAge = 31536000, cookie_HttpOnly = False,
                  cookie_SameSite = SameSiteLaxMode\<rparr> (setSecurityHeaders newResponse)
      in case os_ReadDir env of
           Inl err \<Rightarrow> http_Error w1 ''Could not read posts'' 500
         | Inr files \<Rightarrow>
             renderPage env w1 ''Home''
               (homeContent env (specLocale r) (postIndex env (specLocale r) files)))
   \<and> ContactHandler env r =
       renderPage env (setSecurityHeaders newResponse) ''Contact''
         (if specLocale r = ''th'' then contact_th env else contact_en env)
   \<and> (specLocale r = ''en'' \<or> specLocale r = ''th'')
   \<and> specLocale r = (if selectedLang r = ''en'' then ''en'' else ''th'')"
proof (intro conjI)
  show "HomeHandler env r =
     (let w1 = SetCookie
                 \<lparr>cookie_Name = ''lang'', cookie_Value = specLocale r, cookie_Path = ''/'',
                  cookie_MaxAge = 31536000, cookie_HttpOnly = False,
                  cookie_SameSite = SameSiteLaxMode\<rparr> (setSecurityHeaders newResponse)
      in case os_ReadDir env of
           Inl err \<Rightarrow> http_Error w1 ''Could not read posts'' 500
         | Inr files \<Rightarrow>
             renderPage env w1 ''Home''
               (homeContent env (specLocale r) (postIndex env (specLocale r) files)))"
    by (simp only: HomeHandler_def Let_def requested_lang)
next
  show "ContactHandler env r =
       renderPage env (setSecurityHeaders newResponse) ''Contact''
         (if specLocale r = ''th'' then contact_th env else contact_en env)"
    by (simp only: ContactHandler_def Let_def requested_lang)
next
  show "specLocale r = ''en'' \<or> specLocale r = ''th''"
    by (simp add: specLocale_def)
next
  show "specLocale r = (if selectedLang r = ''en'' then ''en'' else ''th'')"
    by (simp add: specLocale_def)
qed

theorem locale_resolution_witness:
  "map cookie_Value (SetCookies (HomeHandler sampleEnv (langRequest [''en''] [(''lang'', ''th'')])))
     = [''en'']
   \<and> map cookie_Value (SetCookies (HomeHandler sampleEnv (langRequest [] [(''lang'', ''en'')])))
     = [''en'']
   \<and> map cookie_Value (SetCookies (HomeHandler sampleEnv (langRequest [''fr''] [(''lang'', ''en'')])))
     = [''th'']
   \<and> map cookie_Value (SetCookies (HomeHandler sampleEnv (langRequest [] [])))
     = [''th'']"
proof -
  have "specLocale (langRequest [''en''] [(''lang'', ''th'')]) = ''en''"
    and "specLocale (langRequest [] [(''lang'', ''en'')]) = ''en''"
    and "specLocale (langRequest [''fr''] [(''lang'', ''en'')]) = ''th''"
    and "specLocale (langRequest [] []) = ''th''"
    by (simp_all add: specLocale_def selectedLang_def langRequest_def)
  then show ?thesis
    using locale_resolution [of sampleEnv "langRequest [''en''] [(''lang'', ''th'')]"]
      locale_resolution [of sampleEnv "langRequest [] [(''lang'', ''en'')]"]
      locale_resolution [of sampleEnv "langRequest [''fr''] [(''lang'', ''en'')]"]
      locale_resolution [of sampleEnv "langRequest [] []"]
    by (simp add: Let_def SetCookie_def setSecurityHeaders_def Header_Set_def newResponse_def
        split: sum.splits)
qed

section \<open>Page composition\<close>

text \<open>
  Claim C9. The home page fragment and the post page fragment are their fixed markup with
  every slug, title, date string and localized text inserted HTML-escaped, and only the
  rendered Markdown inserted as it is; escaped text holds none of the characters
  \<open>< > " '\<close> and no NUL byte; the handlers hand these fragments to the template; the
  contact page is one of the two fixed markups, as it is. (The post page does not call the
  escaping function on its formatted date: a formatted date holds no character that
  escaping changes, so the fragment is the same.)
\<close>

theorem composition_escapes:
  "homeContent env lang posts = renderPieces (homePieces env lang posts)
   \<and> postHTML title fm rendered = renderPieces (postPieces title fm rendered)
   \<and> (\<forall>c \<in> set (HTMLEscapeString s).
         c \<notin> set [CHR 0x00, CHR 0x22, CHR 0x27, CHR ''<'', CHR ''>''])
   \<and> (os_ReadDir env = Inr files \<longrightarrow>
        (\<exists>w l. HomeHandler env r =
           renderPage env w ''Home'' (renderPieces (homePieces env l (postIndex env l files)))))
   \<and> (IsValidSlug (PathValue r ''slug'') \<and> sl (PathValue r ''slug'') = Inr md
        \<and> goldmark_Convert env (snd (ParseFrontmatter (yaml_Unmarshal env) md)) = Inr html
      \<longrightarrow> (\<exists>t. fst (PostHandler env sl r) =
             renderPage env (setSecurityHeaders newResponse) t
               (renderPieces
                  (postPieces t (fst (ParseFrontmatter (yaml_Unmarshal env) md)) html))))
   \<and> (\<exists>markup. ContactHandler env r =
          renderPage env (setSecurityHeaders newResponse) ''Contact'' markup
        \<and> (markup = contact_th env \<or> markup = contact_en env))"
proof (intro conjI impI)
  show "homeContent env lang posts = renderPieces (homePieces env lang posts)"
    by (rule homeContent_pieces)
next
  show "postHTML title fm rendered = renderPieces (postPieces title fm rendered)"
    by (rule postHTML_pieces)
next
  show "\<forall>c \<in> set (HTMLEscapeString s).
          c \<notin> set [CHR 0x00, CHR 0x22, CHR 0x27, CHR ''<'', CHR ''>'']"
    by (rule HTMLEscapeString_safe)
next
  assume "os_ReadDir env = Inr files"
  then show "\<exists>w l. HomeHandler env r =
           renderPage env w ''Home'' (renderPieces (homePieces env l (postIndex env l files)))"
    by (auto simp: HomeHandler_def Let_def homeContent_pieces)
next
  assume "IsValidSlug (PathValue r ''slug'') \<and> sl (PathValue r ''slug'') = Inr md
        \<and> goldmark_Convert env (snd (ParseFrontmatter (yaml_Unmarshal env) md)) = Inr html"
  then show "\<exists>t. fst (PostHandler env sl r) =
             renderPage env (setSecurityHeaders newResponse) t
               (renderPieces
                  (postPieces t (fst (ParseFrontmatter (yaml_Unmarshal env) md)) html))"
    by (auto simp: PostHandler_def Let_def postHTML_pieces case_prod_beta)
next
  show "\<exists>markup. ContactHandler env r =
          renderPage env (setSecurityHeaders newResponse) ''Contact'' markup
        \<and> (markup = contact_th env \<or> markup = contact_en env)"
    by (auto simp: ContactHandler_def Let_def)
qed

theorem composition_escapes_witness:
  \<open>postHTML ''<b>Tom & Jerry</b>'' \<lparr>fm_Title = [], fm_Date = ''2026-01-15''\<rparr> ''<p>x</p>''
     = ''<article>\<newline><div class="post-header">\<newline><h1>&lt;b&gt;Tom &amp; Jerry&lt;/b&gt;</h1>\<newline><span class="post-meta">Jan 15, 2026</span>\<newline></div>\<newline><p>x</p></article>''
   \<and> (\<exists>w l. HomeHandler sampleSite (langRequest [''en''] []) =
         renderPage sampleSite w ''Home''
           (renderPieces (homePieces sampleSite l
              (postIndex sampleSite l [testPostFile, gettingStartedFile]))))
   \<and> (\<exists>t. fst (PostHandler sampleEnv
                (MockSlugReader [(''test-post'',
                   ''---\<newline>title: Test Post\<newline>date: 2026-01-15\<newline>---\<newline>\<newline># Hi'')])
                (slugRequest ''test-post'')) =
         renderPage sampleEnv (setSecurityHeaders newResponse) t
           (renderPieces (postPieces t \<lparr>fm_Title = ''Test Post'', fm_Date = ''2026-01-15''\<rparr>
              ''<p># Hi</p>\<newline>'')))\<close>
proof -
  let ?doc = "''---\<newline>title: Test Post\<newline>date: 2026-01-15\<newline>---\<newline>\<newline># Hi''"
  let ?sl = "MockSlugReader [(''test-post'', ?doc)]"
  let ?r = "slugRequest ''test-post''"
  have a: "postHTML ''<b>Tom & Jerry</b>'' \<lparr>fm_Title = [], fm_Date = ''2026-01-15''\<rparr> ''<p>x</p>''
      = renderPieces (postPieces ''<b>Tom & Jerry</b>''
          \<lparr>fm_Title = [], fm_Date = ''2026-01-15''\<rparr> ''<p>x</p>'')"
    using composition_escapes by blast
  have first: \<open>postHTML ''<b>Tom & Jerry</b>'' \<lparr>fm_Title = [], fm_Date = ''2026-01-15''\<rparr> ''<p>x</p>''
     = ''<article>\<newline><div class="post-header">\<newline><h1>&lt;b&gt;Tom &amp; Jerry&lt;/b&gt;</h1>\<newline><span class="post-meta">Jan 15, 2026</span>\<newline></div>\<newline><p>x</p></article>''\<close>
    unfolding a
    by (simp add: renderPieces_def postPieces_def htmlEscapeByte_def parse_samples
        format_samples del: One_nat_def)
  have dir: "os_ReadDir sampleSite = Inr [testPostFile, gettingStartedFile]"
    by (simp add: sampleSite_def)
  have second: "\<exists>w l. HomeHandler sampleSite (langRequest [''en''] []) =
         renderPage sampleSite w ''Home''
           (renderPieces (homePieces sampleSite l
              (postIndex sampleSite l [testPostFile, gettingStartedFile])))"
    using dir composition_escapes [where env = sampleSite and r = "langRequest [''en''] []"]
    by blast
  have slug: "PathValue ?r ''slug'' = ''test-post''"
    by (simp add: PathValue_def slugRequest_def)
  have hyp: "IsValidSlug (PathValue ?r ''slug'') \<and> ?sl (PathValue ?r ''slug'') = Inr ?doc
        \<and> goldmark_Convert sampleEnv (snd (ParseFrontmatter (yaml_Unmarshal sampleEnv) ?doc))
            = Inr ''<p># Hi</p>\<newline>''"
    by (simp add: slug IsValidSlug_chars isAsciiLetter_def isAsciiDigit_def MockSlugReader_def
        sampleEnv_simps testPost_parsed)
  have "\<exists>t. fst (PostHandler sampleEnv ?sl ?r) =
         renderPage sampleEnv (setSecurityHeaders newResponse) t
           (renderPieces (postPieces t (fst (ParseFrontmatter (yaml_Unmarshal sampleEnv) ?doc))
              ''<p># Hi</p>\<newline>''))"
    using hyp composition_escapes [where env = sampleEnv and r = ?r and sl = ?sl]
    by blast
  then have third: "\<exists>t. fst (PostHandler sampleEnv ?sl ?r) =
         renderPage sampleEnv (setSecurityHeaders newResponse) t
           (renderPieces (postPieces t \<lparr>fm_Title = ''Test Post'', fm_Date = ''2026-01-15''\<rparr>
              ''<p># Hi</p>\<newline>''))"
    by (simp add: sampleEnv_simps testPost_parsed)
  from first second third show ?thesis by blast
qed

text \<open>
  Claim C10. On the post page, when the frontmatter has no title, the title is the caser
  applied to the whole slug with its hyphens replaced by spaces: a language prefix stays.
  For the slug \<open>en-getting-started\<close>, with a caser that turns \<open>en getting started\<close> into
  \<open>En Getting Started\<close>, the page title and heading are \<open>En Getting Started\<close>.
\<close>

theorem slug_title_keeps_prefix:
  assumes "IsValidSlug (PathValue r ''slug'')"
    and "sl (PathValue r ''slug'') = Inr md"
    and "fm_Title (fst (ParseFrontmatter (yaml_Unmarshal env) md)) = []"
    and "goldmark_Convert env (snd (ParseFrontmatter (yaml_Unmarshal env) md)) = Inr html"
  shows "fst (PostHandler env sl r) =
           renderPage env (setSecurityHeaders newResponse)
             (cases_Title env
                (map (\<lambda>c. if c = CHR ''-'' then CHR '' '' else c) (PathValue r ''slug'')))
             (postHTML
                (cases_Title env
                   (map (\<lambda>c. if c = CHR ''-'' then CHR '' '' else c) (PathValue r ''slug'')))
                (fst (ParseFrontmatter (yaml_Unmarshal env) md)) html)
     \<and> (PathValue r ''slug'' = ''en-getting-started''
          \<and> cases_Title env ''en getting started'' = ''En Getting Started''
        \<longrightarrow> fst (PostHandler env sl r) =
              renderPage env (setSecurityHeaders newResponse) ''En Getting Started''
                (postHTML ''En Getting Started''
                   (fst (ParseFrontmatter (yaml_Unmarshal env) md)) html))"
proof -
  have eq: "fst (PostHandler env sl r) =
           renderPage env (setSecurityHeaders newResponse)
             (cases_Title env
                (map (\<lambda>c. if c = CHR ''-'' then CHR '' '' else c) (PathValue r ''slug'')))
             (postHTML
                (cases_Title env
                   (map (\<lambda>c. if c = CHR ''-'' then CHR '' '' else c) (PathValue r ''slug'')))
                (fst (ParseFrontmatter (yaml_Unmarshal env) md)) html)"
    using assms
    by (simp add: PostHandler_def Let_def toTitleCase_def ReplaceAll_hyphen case_prod_beta)
  show ?thesis
  proof (intro conjI impI)
    show "fst (PostHandler env sl r) =
           renderPage env (setSecurityHeaders newResponse)
             (cases_Title env
                (map (\<lambda>c. if c = CHR ''-'' then CHR '' '' else c) (PathValue r ''slug'')))
             (postHTML
                (cases_Title env
                   (map (\<lambda>c. if c = CHR ''-'' then CHR '' '' else c) (PathValue r ''slug'')))
                (fst (ParseFrontmatter (yaml_Unmarshal env) md)) html)"
      by (rule eq)
  next
    assume a: "PathValue r ''slug'' = ''en-getting-started''
               \<and> cases_Title env ''en getting started'' = ''En Getting Started''"
    then have "cases_Title env
                (map (\<lambda>c. if c = CHR ''-'' then CHR '' '' else c) (PathValue r ''slug''))
               = ''En Getting Started''"
      by simp
    with eq show "fst (PostHandler env sl r) =
              renderPage env (setSecurityHeaders newResponse) ''En Getting Started''
                (postHTML ''En Getting Started''
                   (fst (ParseFrontmatter (yaml_Unmarshal env) md)) html)"
      by simp
  qed
qed

theorem slug_title_keeps_prefix_witness:
  "fst (PostHandler sampleEnv (MockSlugReader [(''en-getting-started'', ''## Why Go?'')])
          (slugRequest ''en-getting-started''))
     = renderPage sampleEnv (setSecurityHeaders newResponse) ''En Getting Started''
         (postHTML ''En Getting Started'' \<lparr>fm_Title = [], fm_Date = []\<rparr>
            ''<p>## Why Go?</p>\<newline>'')"
proof -
  let ?r = "slugRequest ''en-getting-started''"
  let ?sl = "MockSlugReader [(''en-getting-started'', ''## Why Go?'')]"
  have slug: "PathValue ?r ''slug'' = ''en-getting-started''"
    by (simp add: PathValue_def slugRequest_def)
  have valid: "IsValidSlug (PathValue ?r ''slug'')"
    by (simp add: slug IsValidSlug_chars isAsciiLetter_def isAsciiDigit_def)
  have found: "?sl (PathValue ?r ''slug'') = Inr ''## Why Go?''"
    by (simp add: slug MockSlugReader_def)
  have pf: "ParseFrontmatter sampleYaml ''## Why Go?''
              = (\<lparr>fm_Title = [], fm_Date = []\<rparr>, ''## Why Go?'')"
    by (rule ParseFrontmatter_no_prefix) simp
  have untitled: "fm_Title (fst (ParseFrontmatter (yaml_Unmarshal sampleEnv) ''## Why Go?'')) = []"
    by (simp add: pf sampleEnv_simps)
  have converted: "goldmark_Convert sampleEnv
                     (snd (ParseFrontmatter (yaml_Unmarshal sampleEnv) ''## Why Go?''))
                   = Inr ''<p>## Why Go?</p>\<newline>''"
    by (simp add: pf sampleEnv_simps)
  have caser: "PathValue ?r ''slug'' = ''en-getting-started''
               \<and> cases_Title sampleEnv ''en getting started'' = ''En Getting Started''"
    by (simp add: slug sampleEnv_simps upperAscii_def lowerAscii_def)
  show ?thesis
    using slug_title_keeps_prefix [where r = ?r and sl = ?sl and env = sampleEnv,
        OF valid found untitled converted] caser
    by (simp add: pf sampleEnv_simps)
qed

end
